theory Spec2Isabelle
  imports Complex_Main
begin

section \<open>Retry with exponential backoff\<close>

text \<open>
  The course's resilient agent (exercise 3) wraps fallible calls in \<open>withRetry\<close>. An
  error value carries the fields the code reads: \<open>message\<close>, \<open>status\<close> and
  \<open>response.status\<close>. Numbers are integers for counts and status codes and reals for
  delays in milliseconds (rounding of doubles is not modelled). The wrapped operation is
  given by the outcome of its k-th invocation (k counted from 1), and \<open>Math.random()\<close>
  by the sample drawn on the k-th attempt.
\<close>

record JsError =
  message :: string
  status :: "int option"
  response_status :: "int option"

record RetryOptions =
  maxRetries :: int
  baseDelayMs :: real
  maxDelayMs :: real
  shouldRetry :: "(JsError \<Rightarrow> bool) option"

record RetryOptionsPartial =
  opt_maxRetries :: "int option"
  opt_baseDelayMs :: "real option"
  opt_maxDelayMs :: "real option"
  opt_shouldRetry :: "(JsError \<Rightarrow> bool) option"

text \<open>\<open>error?.status || error?.response?.status\<close>: a missing or zero status is falsy.\<close>

definition error_status :: "JsError \<Rightarrow> int option" where
  "error_status e =
     (case status e of
        None \<Rightarrow> response_status e
      | Some v \<Rightarrow> if v = 0 then response_status e else Some v)"

definition defaultShouldRetry :: "JsError \<Rightarrow> bool" where
  "defaultShouldRetry e =
     (case error_status e of
        None \<Rightarrow> True
      | Some st \<Rightarrow> if st \<ge> 400 \<and> st < 500 \<and> st \<noteq> 429 then False else True)"

definition defaultRetryOptions :: RetryOptions where
  "defaultRetryOptions =
     \<lparr>maxRetries = 3, baseDelayMs = 1000, maxDelayMs = 10000,
      shouldRetry = Some defaultShouldRetry\<rparr>"

text \<open>\<open>{ ...defaultRetryOptions, ...options }\<close>: a key of \<open>options\<close> wins.\<close>

definition resolveOptions :: "RetryOptionsPartial \<Rightarrow> RetryOptions" where
  "resolveOptions p =
     \<lparr>maxRetries = (case opt_maxRetries p of None \<Rightarrow> maxRetries defaultRetryOptions | Some v \<Rightarrow> v),
      baseDelayMs = (case opt_baseDelayMs p of None \<Rightarrow> baseDelayMs defaultRetryOptions | Some v \<Rightarrow> v),
      maxDelayMs = (case opt_maxDelayMs p of None \<Rightarrow> maxDelayMs defaultRetryOptions | Some v \<Rightarrow> v),
      shouldRetry = (case opt_shouldRetry p of None \<Rightarrow> shouldRetry defaultRetryOptions | Some f \<Rightarrow> Some f)\<rparr>"

text \<open>What a \<open>throw\<close> carries: \<open>throw lastError\<close> after a loop that never ran throws
  \<open>undefined\<close>.\<close>

datatype thrown = ThrownUndefined | Thrown JsError

record 'a RetryRun =
  outcome :: "thrown + 'a"
  invocations :: nat
  delays :: "real list"

text \<open>The delay slept after the failure of attempt \<open>attempt\<close>, with jitter sample \<open>r\<close>:
  \<open>Math.min(baseDelayMs * Math.pow(2, attempt - 1) * (1 + Math.random() * 0.1), maxDelayMs)\<close>.\<close>

definition retryDelay :: "RetryOptions \<Rightarrow> nat \<Rightarrow> real \<Rightarrow> real" where
  "retryDelay opts attempt r =
     min (baseDelayMs opts * 2 ^ (attempt - 1) * (1 + r * (1 / 10))) (maxDelayMs opts)"

text \<open>\<open>opts.shouldRetry?.(error) ?? true\<close>.\<close>

definition askShouldRetry :: "RetryOptions \<Rightarrow> JsError \<Rightarrow> bool" where
  "askShouldRetry opts e = (case shouldRetry opts of None \<Rightarrow> True | Some f \<Rightarrow> f e)"

text \<open>The \<open>for\<close> loop of \<open>withRetry\<close>, entered with the loop variable \<open>attempt\<close>, the
  \<open>lastError\<close> so far, the number of invocations made and the delays slept.\<close>

function retryLoop ::
  "(nat \<Rightarrow> JsError + 'a) \<Rightarrow> (nat \<Rightarrow> real) \<Rightarrow> RetryOptions \<Rightarrow> nat \<Rightarrow> JsError option \<Rightarrow>
   nat \<Rightarrow> real list \<Rightarrow> 'a RetryRun" where
  "retryLoop fn rnd opts attempt lastError n ds =
     (if int attempt \<le> maxRetries opts then
        (case fn (Suc n) of
           Inr v \<Rightarrow> \<lparr>outcome = Inr v, invocations = Suc n, delays = ds\<rparr>
         | Inl e \<Rightarrow>
             (let isLastAttempt = (int attempt = maxRetries opts);
                  should = askShouldRetry opts e
              in if isLastAttempt \<or> \<not> should
                 then \<lparr>outcome = Inl (Thrown e), invocations = Suc n, delays = ds\<rparr>
                 else retryLoop fn rnd opts (Suc attempt) (Some e) (Suc n)
                        (ds @ [retryDelay opts attempt (rnd attempt)])))
      else \<lparr>outcome = Inl (case lastError of None \<Rightarrow> ThrownUndefined | Some e \<Rightarrow> Thrown e),
             invocations = n, delays = ds\<rparr>)"
  by pat_completeness auto
termination
  by (relation "measure (\<lambda>(fn, rnd, opts, attempt, lastError, n, ds).
        nat (maxRetries opts + 1 - int attempt))") auto

declare retryLoop.simps [simp del]

definition withRetry ::
  "(nat \<Rightarrow> JsError + 'a) \<Rightarrow> (nat \<Rightarrow> real) \<Rightarrow> RetryOptionsPartial \<Rightarrow> 'a RetryRun" where
  "withRetry fn rnd options = retryLoop fn rnd (resolveOptions options) 1 None 0 []"

text \<open>The deployed function (exercise 4) has a simpler \<open>withRetry(fn, maxRetries = 3)\<close>:
  no classifier, and a linear wait of \<open>1000 * attempt\<close> ms.\<close>

function retryLoop4 ::
  "(nat \<Rightarrow> JsError + 'a) \<Rightarrow> int \<Rightarrow> nat \<Rightarrow> JsError option \<Rightarrow> nat \<Rightarrow> real list \<Rightarrow> 'a RetryRun" where
  "retryLoop4 fn maxR attempt lastError n ds =
     (if int attempt \<le> maxR then
        (case fn (Suc n) of
           Inr v \<Rightarrow> \<lparr>outcome = Inr v, invocations = Suc n, delays = ds\<rparr>
         | Inl e \<Rightarrow>
             retryLoop4 fn maxR (Suc attempt) (Some e) (Suc n)
               (if int attempt < maxR then ds @ [1000 * real attempt] else ds))
      else \<lparr>outcome = Inl (case lastError of None \<Rightarrow> ThrownUndefined | Some e \<Rightarrow> Thrown e),
             invocations = n, delays = ds\<rparr>)"
  by pat_completeness auto
termination
  by (relation "measure (\<lambda>(fn, maxR, attempt, lastError, n, ds). nat (maxR + 1 - int attempt))")
     auto

declare retryLoop4.simps [simp del]

definition withRetry4 :: "(nat \<Rightarrow> JsError + 'a) \<Rightarrow> int \<Rightarrow> 'a RetryRun" where
  "withRetry4 fn maxR = retryLoop4 fn maxR 1 None 0 []"

text \<open>The lecture on error handling computes a backoff with 0-30% jitter and no cap:
  \<open>baseDelay * Math.pow(2, attempt - 1) * (1 + jitter)\<close>, \<open>jitter = Math.random() * 0.3\<close>.
  \<open>Math.pow(2, -1)\<close> is one half.\<close>

definition calculateBackoff :: "nat \<Rightarrow> real \<Rightarrow> real \<Rightarrow> real" where
  "calculateBackoff attempt baseDelay r =
     (let jitter = r * (3 / 10)
      in baseDelay * (if attempt = 0 then 1 / 2 else 2 ^ (attempt - 1)) * (1 + jitter))"

text \<open>The specification's formula for the delay of attempt \<open>n\<close>, word for word:
  \<open>min(max_delay, base_delay * 2^(n-1)) * (1 + random() * jitter_fraction)\<close>.\<close>

definition specDelay :: "real \<Rightarrow> real \<Rightarrow> real \<Rightarrow> nat \<Rightarrow> real \<Rightarrow> real" where
  "specDelay max_delay base_delay jitter_fraction n r =
     min max_delay (base_delay * 2 ^ (n - 1)) * (1 + r * jitter_fraction)"

section \<open>Circuit breaker\<close>

text \<open>
  The lecture's \<open>CircuitBreaker\<close> class: a failure counter and the time of the last
  failure, with \<open>threshold = 5\<close> and \<open>resetTimeout = 60000\<close> ms. Times are
  milliseconds since the epoch (\<open>Date.now()\<close>). \<open>execute\<close> is given the clock reading at its
  entry, the outcome the operation has if it is invoked, and the clock reading when a failure is
  recorded; it returns the result, the new breaker and whether the operation was invoked.
\<close>

record CircuitBreaker =
  failures :: nat
  lastFailure :: "int option"

definition threshold :: nat where
  "threshold = 5"

definition resetTimeout :: int where
  "resetTimeout = 60000"

definition newCircuitBreaker :: CircuitBreaker where
  "newCircuitBreaker = \<lparr>failures = 0, lastFailure = None\<rparr>"

text \<open>\<open>Date.now() - (this.lastFailure?.getTime() || 0)\<close>.\<close>

definition isOpen :: "CircuitBreaker \<Rightarrow> int \<Rightarrow> bool" where
  "isOpen cb now =
     (if failures cb < threshold then False
      else (let timeSinceFailure = now - (case lastFailure cb of None \<Rightarrow> 0 | Some t \<Rightarrow> t)
            in timeSinceFailure < resetTimeout))"

definition recordFailure :: "CircuitBreaker \<Rightarrow> int \<Rightarrow> CircuitBreaker" where
  "recordFailure cb now = \<lparr>failures = failures cb + 1, lastFailure = Some now\<rparr>"

definition reset :: "CircuitBreaker \<Rightarrow> CircuitBreaker" where
  "reset cb = \<lparr>failures = 0, lastFailure = None\<rparr>"

datatype 'e BreakerError = CircuitOpen string | OperationFailed 'e

record ('e, 'a) BreakerCall =
  result :: "'e BreakerError + 'a"
  breaker :: CircuitBreaker
  invoked :: bool

definition execute ::
  "CircuitBreaker \<Rightarrow> int \<Rightarrow> ('e + 'a) \<Rightarrow> int \<Rightarrow> ('e, 'a) BreakerCall" where
  "execute cb now fn failedAt =
     (if isOpen cb now
      then \<lparr>result = Inl (CircuitOpen ''Circuit breaker is open - service unavailable''),
             breaker = cb, invoked = False\<rparr>
      else (case fn of
              Inr r \<Rightarrow> \<lparr>result = Inr r, breaker = reset cb, invoked = True\<rparr>
            | Inl e \<Rightarrow> \<lparr>result = Inl (OperationFailed e), breaker = recordFailure cb failedAt,
                         invoked = True\<rparr>))"

text \<open>A sequence of calls through one breaker: each call is its entry time, the operation's
  outcome and the time a failure is recorded.\<close>

fun executeAll ::
  "CircuitBreaker \<Rightarrow> (int \<times> ('e + 'a) \<times> int) list \<Rightarrow> ('e, 'a) BreakerCall list" where
  "executeAll cb [] = []"
| "executeAll cb ((now, fn, failedAt) # calls) =
     (let c = execute cb now fn failedAt in c # executeAll (breaker c) calls)"

section \<open>Values, strings and state channels\<close>

text \<open>
  A key of a \<open>Partial<AgentState>\<close> returned by a node is either missing or present with a
  value. A field of type \<open>T | null\<close> holds an \<open>option\<close>, \<open>None\<close> being \<open>null\<close>
  (\<open>undefined\<close> behaves as \<open>null\<close> everywhere the code looks: \<open>??\<close>, \<open>!\<close>, \<open>||\<close>).
  Strings are byte lists: the code's \<open>length\<close> counts UTF-16 units, which is the same number
  on the ASCII inputs used here; the emoji of the response texts are written as their UTF-8 bytes.
\<close>

datatype 'a upd = Absent | Present 'a

text \<open>Every channel of every graph of the course is declared \<open>{ value: (a, b) => b ?? a }\<close>.
  \<open>channel\<close> is that reducer on a field that cannot be null, \<open>channelNullable\<close> on a field
  of type \<open>T | null\<close>: \<open>b ?? a\<close> is \<open>a\<close> when \<open>b\<close> is null or undefined.\<close>

definition channel :: "'a \<Rightarrow> 'a upd \<Rightarrow> 'a" where
  "channel a b = (case b of Absent \<Rightarrow> a | Present v \<Rightarrow> v)"

definition channelNullable :: "'a option \<Rightarrow> 'a option upd \<Rightarrow> 'a option" where
  "channelNullable a b = (case b of Absent \<Rightarrow> a | Present None \<Rightarrow> a | Present (Some v) \<Rightarrow> Some v)"

text \<open>Truthiness of a \<open>string | null\<close>: null and the empty string are falsy.\<close>

definition truthy :: "string option \<Rightarrow> bool" where
  "truthy v = (case v of None \<Rightarrow> False | Some s \<Rightarrow> s \<noteq> [])"

text \<open>\<open>a || b\<close> on strings.\<close>

definition orElse :: "string option \<Rightarrow> string \<Rightarrow> string" where
  "orElse v d = (case v of None \<Rightarrow> d | Some s \<Rightarrow> if s = [] then d else s)"

definition digitChar :: "nat \<Rightarrow> char" where
  "digitChar d = ''0123456789'' ! d"

function showNat :: "nat \<Rightarrow> string" where
  "showNat n = (if n < 10 then [digitChar n] else showNat (n div 10) @ [digitChar (n mod 10)])"
  by pat_completeness auto
termination
  by (relation "measure id") auto

declare showNat.simps [simp del]

definition showInt :: "int \<Rightarrow> string" where
  "showInt i = (if i < 0 then ''-'' @ showNat (nat (- i)) else showNat (nat i))"

definition lowerChar :: "char \<Rightarrow> char" where
  "lowerChar c =
     (let n = of_char c :: nat in if 65 \<le> n \<and> n \<le> 90 then char_of (n + 32) else c)"

definition toLowerCase :: "string \<Rightarrow> string" where
  "toLowerCase s = map lowerChar s"

fun strIncludes :: "string \<Rightarrow> string \<Rightarrow> bool" where
  "strIncludes [] sub = (sub = [])"
| "strIncludes (c # cs) sub = (take (length sub) (c # cs) = sub \<or> strIncludes cs sub)"

definition newline :: string where
  "newline = [CHR 0x0A]"

definition quote :: string where
  "quote = [CHR 0x22]"

definition checkMark :: string where
  "checkMark = [CHR 0xE2, CHR 0x9C, CHR 0x85]"

definition crossMark :: string where
  "crossMark = [CHR 0xE2, CHR 0x9D, CHR 0x8C]"

definition warningSign :: string where
  "warningSign = [CHR 0xE2, CHR 0x9A, CHR 0xA0, CHR 0xEF, CHR 0xB8, CHR 0x8F]"

definition envelope :: string where
  "envelope = [CHR 0xF0, CHR 0x9F, CHR 0x93, CHR 0xA7]"

definition hourglass :: string where
  "hourglass = [CHR 0xE2, CHR 0x8F, CHR 0xB3]"

section \<open>The run loop of a state graph\<close>

text \<open>
  The graphs are built with the library's \<open>StateGraph\<close>: \<open>addNode\<close> registers an executor
  under a name, \<open>setEntryPoint\<close> names the first node, \<open>addEdge\<close> gives a node a fixed
  successor and \<open>addConditionalEdges\<close> a router with a table from the router's answers to
  successors, \<open>END\<close> among them. A node returns the external effects it performed and either
  an update or the message of an exception it let escape. A step of a run records the node, the
  state it read, its effects and the merged state.
\<close>

datatype target = Goto string | END

datatype 's Edge = Always target | Conditional "'s \<Rightarrow> string" "(string \<times> target) list"

record ('s, 'u, 'x) StateGraph =
  channels :: "'s \<Rightarrow> 'u \<Rightarrow> 's"
  nodes :: "(string \<times> ('s \<Rightarrow> 'x list \<times> (string + 'u))) list"
  entryPoint :: string
  edges :: "(string \<times> 's Edge) list"

record ('s, 'x) Step =
  stepNode :: string
  stepBefore :: 's
  stepEffects :: "'x list"
  stepAfter :: 's

text \<open>Modelled from the spec: how a run of the Graph Engine ends. The engine that runs the
  graphs is the \<open>invoke\<close> of an imported graph library, which is not among the sources; the
  specification (sections 4.4 and 7) has a run end \<open>completed\<close> when the router selects the
  terminal marker, or \<open>failed\<close>: here by an exception a node let escape, by a successor that
  is not declared, or by the "step budget exceeded" error, which carries the node that was due
  and the state reached.\<close>

datatype 's RunStatus =
    Completed 's
  | Threw string
  | Invalid string
  | StepBudgetExceededError string 's

definition targetOf :: "(string \<times> 's Edge) list \<Rightarrow> string \<Rightarrow> 's \<Rightarrow> target option" where
  "targetOf es n s =
     (case map_of es n of
        None \<Rightarrow> None
      | Some (Always t) \<Rightarrow> Some t
      | Some (Conditional router table) \<Rightarrow> map_of table (router s))"

definition nextTarget :: "('s, 'u, 'x) StateGraph \<Rightarrow> string \<Rightarrow> 's \<Rightarrow> target option" where
  "nextTarget g n s = targetOf (edges g) n s"

text \<open>Modelled from the spec: the run loop of the Graph Engine and its step budget, which
  belong to the imported graph library and are not among the sources. The specification
  (sections 2 and 4.4): the engine "drives the run loop (execute node, merge, route, repeat),
  detects terminal states, and enforces a global step budget", "a maximum node-execution count
  per run"; "exceeding it forces a transition to failed with a step budget exceeded error".
  \<open>budget\<close> is the number of node executions the run may still make; \<open>tr\<close> collects the
  steps made.\<close>

fun runFrom ::
  "('s, 'u, 'x) StateGraph \<Rightarrow> nat \<Rightarrow> string \<Rightarrow> 's \<Rightarrow> ('s, 'x) Step list \<Rightarrow>
   's RunStatus \<times> ('s, 'x) Step list" where
  "runFrom g 0 n s tr = (StepBudgetExceededError n s, tr)"
| "runFrom g (Suc budget) n s tr =
     (case map_of (nodes g) n of
        None \<Rightarrow> (Invalid n, tr)
      | Some node \<Rightarrow>
          (case node s of
             (fx, Inl msg) \<Rightarrow>
               (Threw msg, tr @ [\<lparr>stepNode = n, stepBefore = s, stepEffects = fx, stepAfter = s\<rparr>])
           | (fx, Inr u) \<Rightarrow>
               (let s' = channels g s u;
                    tr' = tr @ [\<lparr>stepNode = n, stepBefore = s, stepEffects = fx, stepAfter = s'\<rparr>]
                in case nextTarget g n s' of
                     None \<Rightarrow> (Invalid n, tr')
                   | Some END \<Rightarrow> (Completed s', tr')
                   | Some (Goto n') \<Rightarrow> runFrom g budget n' s' tr')))"

definition isBudgetExceeded :: "'s RunStatus \<Rightarrow> bool" where
  "isBudgetExceeded r = (case r of StepBudgetExceededError n s \<Rightarrow> True | _ \<Rightarrow> False)"

text \<open>Modelled from the spec: a run starts \<open>running\<close> at the entry node declared at
  graph-build time, with the configured step budget (section 4.4); the library's \<open>invoke\<close> is
  not among the sources.\<close>

definition invoke ::
  "('s, 'u, 'x) StateGraph \<Rightarrow> nat \<Rightarrow> 's \<Rightarrow> 's RunStatus \<times> ('s, 'x) Step list" where
  "invoke g budget s = runFrom g budget (entryPoint g) s []"

text \<open>Modelled from the spec: the states of the Graph Engine's state machine (section 4.4),
  \<open>running\<close>, \<open>awaiting_approval\<close>, \<open>completed\<close> and \<open>failed\<close>, as read off the end of
  a run; the engine is not among the sources. \<open>awaiting\<close> tells whether the final state holds
  a pending action that waits for its decision: such a run has halted at the approval gate.\<close>

datatype EngineState = running | awaiting_approval | completed | failed

definition engineState :: "('s \<Rightarrow> bool) \<Rightarrow> 's RunStatus \<Rightarrow> EngineState" where
  "engineState awaiting r =
     (case r of
        Completed s \<Rightarrow> if awaiting s then awaiting_approval else completed
      | Threw e \<Rightarrow> failed
      | Invalid n \<Rightarrow> failed
      | StepBudgetExceededError n s \<Rightarrow> failed)"

definition pureNode :: "('s \<Rightarrow> 'u) \<Rightarrow> 's \<Rightarrow> unit list \<times> (string + 'u)" where
  "pureNode f s = ([], Inr (f s))"

text \<open>Modelled from the spec: the graph of scenario D (section 8), "router for node X always
  returns node Y and router for node Y always returns node X", for any channels and any two
  node executors; no such graph is among the sources.\<close>

definition pingPong ::
  "('s \<Rightarrow> 'u \<Rightarrow> 's) \<Rightarrow> ('s \<Rightarrow> 'u) \<Rightarrow> ('s \<Rightarrow> 'u) \<Rightarrow> ('s, 'u, unit) StateGraph" where
  "pingPong ch fX fY =
     \<lparr>channels = ch,
      nodes = [(''X'', pureNode fX), (''Y'', pureNode fY)],
      entryPoint = ''X'',
      edges = [(''X'', Conditional (\<lambda>s. ''Y'') [(''Y'', Goto ''Y''), (''end'', END)]),
               (''Y'', Conditional (\<lambda>s. ''X'') [(''X'', Goto ''X''), (''end'', END)])]\<rparr>"

section \<open>Exercise 1 of day 2: the looping agent and its fix\<close>

text \<open>The agent handed to the students (\<open>buggy-agent.ts\<close>), which the exercise warns will
  loop on a short message. In this agent and in its fix, \<open>length\<close> counts bytes where the
  code's \<open>userMessage.length\<close> counts UTF-16 units: the two agree on ASCII messages, and a
  message with other characters may fall on the other side of the bound of 20.\<close>

record BuggyState =
  userMessageB :: string
  attemptsB :: int
  responseB :: "string option"
  needsMoreInfoB :: bool

record BuggyUpdate =
  upd_userMessageB :: "string upd"
  upd_attemptsB :: "int upd"
  upd_responseB :: "string option upd"
  upd_needsMoreInfoB :: "bool upd"

definition noUpdateB :: BuggyUpdate where
  "noUpdateB = \<lparr>upd_userMessageB = Absent, upd_attemptsB = Absent, upd_responseB = Absent,
                 upd_needsMoreInfoB = Absent\<rparr>"

definition channelsB :: "BuggyState \<Rightarrow> BuggyUpdate \<Rightarrow> BuggyState" where
  "channelsB a b =
     \<lparr>userMessageB = channel (userMessageB a) (upd_userMessageB b),
      attemptsB = channel (attemptsB a) (upd_attemptsB b),
      responseB = channelNullable (responseB a) (upd_responseB b),
      needsMoreInfoB = channel (needsMoreInfoB a) (upd_needsMoreInfoB b)\<rparr>"

definition analyzeRequestB :: "BuggyState \<Rightarrow> BuggyUpdate" where
  "analyzeRequestB state =
     (if length (userMessageB state) < 20
      then noUpdateB\<lparr>upd_needsMoreInfoB := Present True,
                     upd_attemptsB := Present (attemptsB state + 1)\<rparr>
      else noUpdateB\<lparr>upd_responseB := Present (Some ''Analyzed successfully!'')\<rparr>)"

definition requestClarificationB :: "BuggyState \<Rightarrow> BuggyUpdate" where
  "requestClarificationB state =
     noUpdateB\<lparr>upd_responseB := Present (Some ''Could you provide more details?'')\<rparr>"

definition routeAnalysisB :: "BuggyState \<Rightarrow> string" where
  "routeAnalysisB state =
     (if needsMoreInfoB state then ''request_clarification'' else ''end'')"

definition buggyWorkflow :: "(BuggyState, BuggyUpdate, unit) StateGraph" where
  "buggyWorkflow =
     \<lparr>channels = channelsB,
      nodes = [(''analyze_request'', pureNode analyzeRequestB),
               (''request_clarification'', pureNode requestClarificationB)],
      entryPoint = ''analyze_request'',
      edges = [(''analyze_request'',
                  Conditional routeAnalysisB
                    [(''request_clarification'', Goto ''request_clarification''), (''end'', END)]),
               (''request_clarification'', Always (Goto ''analyze_request''))]\<rparr>"

definition initialStateB :: BuggyState where
  "initialStateB =
     \<lparr>userMessageB = ''Hi'', attemptsB = 0, responseB = None, needsMoreInfoB = False\<rparr>"

definition runBuggyAgent :: "nat \<Rightarrow> BuggyState RunStatus \<times> (BuggyState, unit) Step list" where
  "runBuggyAgent budget = invoke buggyWorkflow budget initialStateB"

text \<open>The instructors' solution (\<open>exercise-01-solution.ts\<close>).\<close>

record AgentState1 =
  userMessage1 :: string
  attempts1 :: int
  maxAttempts1 :: int
  response1 :: "string option"
  needsMoreInfo1 :: bool
  askedForClarification1 :: bool
  error1 :: "string option"

record AgentUpdate1 =
  upd_userMessage1 :: "string upd"
  upd_attempts1 :: "int upd"
  upd_maxAttempts1 :: "int upd"
  upd_response1 :: "string option upd"
  upd_needsMoreInfo1 :: "bool upd"
  upd_askedForClarification1 :: "bool upd"
  upd_error1 :: "string option upd"

definition noUpdate1 :: AgentUpdate1 where
  "noUpdate1 = \<lparr>upd_userMessage1 = Absent, upd_attempts1 = Absent, upd_maxAttempts1 = Absent,
                 upd_response1 = Absent, upd_needsMoreInfo1 = Absent,
                 upd_askedForClarification1 = Absent, upd_error1 = Absent\<rparr>"

definition channels1 :: "AgentState1 \<Rightarrow> AgentUpdate1 \<Rightarrow> AgentState1" where
  "channels1 a b =
     \<lparr>userMessage1 = channel (userMessage1 a) (upd_userMessage1 b),
      attempts1 = channel (attempts1 a) (upd_attempts1 b),
      maxAttempts1 = channel (maxAttempts1 a) (upd_maxAttempts1 b),
      response1 = channelNullable (response1 a) (upd_response1 b),
      needsMoreInfo1 = channel (needsMoreInfo1 a) (upd_needsMoreInfo1 b),
      askedForClarification1 = channel (askedForClarification1 a) (upd_askedForClarification1 b),
      error1 = channelNullable (error1 a) (upd_error1 b)\<rparr>"

definition analyzeRequest :: "AgentState1 \<Rightarrow> AgentUpdate1" where
  "analyzeRequest state =
     (if attempts1 state \<ge> maxAttempts1 state then
        noUpdate1\<lparr>upd_response1 := Present (Some
            ''I wasn't able to understand your request after several tries. Could you try rephrasing it differently?''),
          upd_needsMoreInfo1 := Present False,
          upd_error1 := Present (Some ''Max attempts exceeded'')\<rparr>
      else if askedForClarification1 state then
        noUpdate1\<lparr>upd_response1 := Present (Some
            (''I'll do my best with what you told me: '' @ quote @ userMessage1 state @ quote)),
          upd_needsMoreInfo1 := Present False,
          upd_attempts1 := Present (attempts1 state + 1)\<rparr>
      else if length (userMessage1 state) < 20 then
        noUpdate1\<lparr>upd_needsMoreInfo1 := Present True,
          upd_attempts1 := Present (attempts1 state + 1)\<rparr>
      else
        noUpdate1\<lparr>upd_response1 := Present (Some
            (''Analyzed successfully: '' @ quote @ userMessage1 state @ quote)),
          upd_needsMoreInfo1 := Present False,
          upd_attempts1 := Present (attempts1 state + 1)\<rparr>)"

definition requestClarification :: "AgentState1 \<Rightarrow> AgentUpdate1" where
  "requestClarification state =
     noUpdate1\<lparr>upd_response1 := Present (Some
         ''Could you provide more details? Your message seems a bit short.''),
       upd_needsMoreInfo1 := Present False,
       upd_askedForClarification1 := Present True\<rparr>"

definition routeAnalysis :: "AgentState1 \<Rightarrow> string" where
  "routeAnalysis state =
     (if truthy (response1 state) then ''end''
      else if attempts1 state \<ge> maxAttempts1 state then ''end''
      else if truthy (error1 state) then ''end''
      else if needsMoreInfo1 state \<and> \<not> askedForClarification1 state then ''request_clarification''
      else ''end'')"

definition fixedWorkflow :: "(AgentState1, AgentUpdate1, unit) StateGraph" where
  "fixedWorkflow =
     \<lparr>channels = channels1,
      nodes = [(''analyze_request'', pureNode analyzeRequest),
               (''request_clarification'', pureNode requestClarification)],
      entryPoint = ''analyze_request'',
      edges = [(''analyze_request'',
                  Conditional routeAnalysis
                    [(''request_clarification'', Goto ''request_clarification''), (''end'', END)]),
               (''request_clarification'', Always (Goto ''analyze_request''))]\<rparr>"

section \<open>Shared data of the CRM agents\<close>

text \<open>
  Exercises 2 to 4 of day 2 share the shape of their data. Of a lead only the columns the
  modelled code reads are kept. \<open>changes\<close> is the \<open>Partial<Lead>\<close> of an update, as the
  list of its keys and values. External calls are effects; what they answer is given by the
  world the agent runs in.
\<close>

record Lead =
  id :: string
  company_name :: string
  contact_name :: string
  contact_email :: string
  lead_status :: string
  score :: int

record Intent =
  intentType :: string
  target :: "string option"

datatype ApprovalStatus = pending | approved | rejected

datatype ActionType = update_lead | send_email

record EmailParams =
  to :: string
  subject :: string
  body :: string

record PendingAction =
  actionType :: ActionType
  leadId :: string
  leadName :: string
  changes :: "(string \<times> string) list option"
  emailContent :: "EmailParams option"

record EmailResult =
  success :: bool
  messageId :: "string option"
  emailError :: "string option"

datatype LeadQuery = AllLeads | ScoreAbove int | NameLike string

datatype Effect =
    LlmRequest string
  | SelectLeads LeadQuery
  | UpdateLead string "(string \<times> string) list"
  | InsertInteraction string string string
  | PostEmail string string string string

text \<open>What a query answers: an exception, or the \<open>{ data, error }\<close> pair.\<close>

datatype 'a DbOutcome = DbThrows string | DbResult "'a option" "string option"

text \<open>What \<open>fetch\<close> to the mail service answers: an exception, a response that is not
  \<open>ok\<close> (status and text), or an \<open>ok\<close> response whose \<open>json()\<close> throws or has an
  \<open>id\<close>.\<close>

datatype FetchOutcome = FetchThrows string | FetchNotOk int string | FetchOk "string + string option"

record Env =
  AUTO_APPROVE :: "string option"
  RESEND_API_KEY :: "string option"
  EMAIL_FROM :: "string option"

text \<open>The world an agent runs in: the environment variables, the threshold read from
  \<open>HIGH_VALUE_THRESHOLD\<close> at start-up, the clock (\<open>Date.now()\<close> and
  \<open>new Date().toISOString()\<close>), the text of the model's k-th answer to a message or the
  exception of that call, what matching and \<open>JSON.parse\<close> make of an answer (the message of
  the exception, or the intent), what a query on the leads answers, whether a write throws,
  what the mail service answers to the k-th request, and the samples of \<open>Math.random()\<close>.\<close>

record World =
  env :: Env
  HIGH_VALUE_THRESHOLD :: int
  dateNow :: nat
  isoNow :: string
  anthropic :: "string \<Rightarrow> nat \<Rightarrow> JsError + string"
  parseIntent :: "string \<Rightarrow> string + Intent"
  selectLeads :: "LeadQuery \<Rightarrow> Lead list DbOutcome"
  writeThrows :: "Effect \<Rightarrow> string option"
  resend :: "nat \<Rightarrow> FetchOutcome"
  random :: "nat \<Rightarrow> real"

text \<open>Awaited writes one after the other: the first that throws ends the sequence.\<close>

fun performWrites :: "World \<Rightarrow> Effect list \<Rightarrow> Effect list \<times> string option" where
  "performWrites w [] = ([], None)"
| "performWrites w (e # es) =
     (case writeThrows w e of
        Some msg \<Rightarrow> ([e], Some msg)
      | None \<Rightarrow> (case performWrites w es of (done, r) \<Rightarrow> (e # done, r)))"

fun joinWith :: "string \<Rightarrow> string list \<Rightarrow> string" where
  "joinWith sep [] = []"
| "joinWith sep [x] = x"
| "joinWith sep (x # y # ys) = x @ sep @ joinWith sep (y # ys)"

text \<open>\<open>JSON.stringify(changes)\<close> for keys and values without characters that JSON escapes
  (the code only ever writes a status word); a quote or backslash in a value would be escaped
  by the code and is not here.\<close>

definition stringifyChanges :: "(string \<times> string) list \<Rightarrow> string" where
  "stringifyChanges cs =
     ''{'' @ joinWith '','' (map (\<lambda>(k, v). quote @ k @ quote @ '':'' @ quote @ v @ quote) cs) @ ''}''"

definition mockMessageId :: "nat \<Rightarrow> string" where
  "mockMessageId now = ''mock-'' @ showNat now"

definition fromAddress :: "Env \<Rightarrow> string" where
  "fromAddress e = orElse (EMAIL_FROM e) ''onboarding@resend.dev''"

section \<open>Exercise 2: the approval gate\<close>

record PendingAction2 = PendingAction +
  reason :: string

record AgentState2 =
  userMessage2 :: string
  intent2 :: "Intent option"
  leads2 :: "Lead list"
  selectedLead2 :: "Lead option"
  pendingAction2 :: "PendingAction2 option"
  approvalStatus2 :: "ApprovalStatus option"
  approvalReason2 :: "string option"
  response2 :: "string option"
  error2 :: "string option"

record AgentUpdate2 =
  upd_userMessage2 :: "string upd"
  upd_intent2 :: "Intent option upd"
  upd_leads2 :: "Lead list upd"
  upd_selectedLead2 :: "Lead option upd"
  upd_pendingAction2 :: "PendingAction2 option upd"
  upd_approvalStatus2 :: "ApprovalStatus option upd"
  upd_approvalReason2 :: "string option upd"
  upd_response2 :: "string option upd"
  upd_error2 :: "string option upd"

definition channels2 :: "AgentState2 \<Rightarrow> AgentUpdate2 \<Rightarrow> AgentState2" where
  "channels2 a b =
     \<lparr>userMessage2 = channel (userMessage2 a) (upd_userMessage2 b),
      intent2 = channelNullable (intent2 a) (upd_intent2 b),
      leads2 = channel (leads2 a) (upd_leads2 b),
      selectedLead2 = channelNullable (selectedLead2 a) (upd_selectedLead2 b),
      pendingAction2 = channelNullable (pendingAction2 a) (upd_pendingAction2 b),
      approvalStatus2 = channelNullable (approvalStatus2 a) (upd_approvalStatus2 b),
      approvalReason2 = channelNullable (approvalReason2 a) (upd_approvalReason2 b),
      response2 = channelNullable (response2 a) (upd_response2 b),
      error2 = channelNullable (error2 a) (upd_error2 b)\<rparr>"

definition routeByIntent2 :: "AgentState2 \<Rightarrow> string" where
  "routeByIntent2 state =
     (case intent2 state of
        None \<Rightarrow> ''handle_other''
      | Some i \<Rightarrow>
          if intentType i = ''lookup'' then ''handle_lookup''
          else if intentType i = ''update'' then ''handle_update''
          else ''handle_other'')"

definition routeAfterUpdate2 :: "AgentState2 \<Rightarrow> string" where
  "routeAfterUpdate2 state =
     (if approvalStatus2 state = Some pending then ''human_review'' else ''end'')"

definition routeAfterReview2 :: "AgentState2 \<Rightarrow> string" where
  "routeAfterReview2 state =
     (if approvalStatus2 state = Some approved then ''execute_approved_update''
      else if approvalStatus2 state = Some rejected then ''handle_rejection''
      else ''end'')"

definition edges2 :: "(string \<times> AgentState2 Edge) list" where
  "edges2 =
     [(''understand_request'',
         Conditional routeByIntent2
           [(''handle_lookup'', Goto ''handle_lookup''),
            (''handle_update'', Goto ''handle_update''),
            (''handle_other'', Goto ''handle_other'')]),
      (''handle_update'',
         Conditional routeAfterUpdate2
           [(''human_review'', Goto ''human_review''), (''end'', END)]),
      (''human_review'',
         Conditional routeAfterReview2
           [(''execute_approved_update'', Goto ''execute_approved_update''),
            (''handle_rejection'', Goto ''handle_rejection''),
            (''end'', END)]),
      (''handle_lookup'', Always END),
      (''handle_other'', Always END),
      (''execute_approved_update'', Always END),
      (''handle_rejection'', Always END)]"

section \<open>Exercise 3: the resilient agent\<close>

record ErrorDetails =
  detailNode :: string
  detailError :: string

record AgentState3 =
  userMessage3 :: string
  intent3 :: "Intent option"
  leads3 :: "Lead list"
  pendingAction3 :: "PendingAction option"
  approvalStatus3 :: "ApprovalStatus option"
  response3 :: "string option"
  error3 :: "string option"
  errorDetails3 :: "ErrorDetails option"

record AgentUpdate3 =
  upd_userMessage3 :: "string upd"
  upd_intent3 :: "Intent option upd"
  upd_leads3 :: "Lead list upd"
  upd_pendingAction3 :: "PendingAction option upd"
  upd_approvalStatus3 :: "ApprovalStatus option upd"
  upd_response3 :: "string option upd"
  upd_error3 :: "string option upd"
  upd_errorDetails3 :: "ErrorDetails option upd"

definition noUpdate3 :: AgentUpdate3 where
  "noUpdate3 = \<lparr>upd_userMessage3 = Absent, upd_intent3 = Absent, upd_leads3 = Absent,
                 upd_pendingAction3 = Absent, upd_approvalStatus3 = Absent,
                 upd_response3 = Absent, upd_error3 = Absent, upd_errorDetails3 = Absent\<rparr>"

definition channels3 :: "AgentState3 \<Rightarrow> AgentUpdate3 \<Rightarrow> AgentState3" where
  "channels3 a b =
     \<lparr>userMessage3 = channel (userMessage3 a) (upd_userMessage3 b),
      intent3 = channelNullable (intent3 a) (upd_intent3 b),
      leads3 = channel (leads3 a) (upd_leads3 b),
      pendingAction3 = channelNullable (pendingAction3 a) (upd_pendingAction3 b),
      approvalStatus3 = channelNullable (approvalStatus3 a) (upd_approvalStatus3 b),
      response3 = channelNullable (response3 a) (upd_response3 b),
      error3 = channelNullable (error3 a) (upd_error3 b),
      errorDetails3 = channelNullable (errorDetails3 a) (upd_errorDetails3 b)\<rparr>"

text \<open>\<open>sendEmail(params)\<close> of exercise 3: without an API key a mock result and no request;
  otherwise the request goes through \<open>withRetry\<close> with \<open>maxRetries: 2, baseDelayMs: 2000\<close>.
  It returns the requests made and the result, or what it throws.\<close>

definition resendAttempt :: "World \<Rightarrow> nat \<Rightarrow> JsError + EmailResult" where
  "resendAttempt w k =
     (case resend w k of
        FetchThrows msg \<Rightarrow> Inl \<lparr>message = msg, status = None, response_status = None\<rparr>
      | FetchNotOk st errorBody \<Rightarrow>
          Inl \<lparr>message = ''Resend error: '' @ errorBody, status = Some st, response_status = None\<rparr>
      | FetchOk (Inl msg) \<Rightarrow> Inl \<lparr>message = msg, status = None, response_status = None\<rparr>
      | FetchOk (Inr i) \<Rightarrow> Inr \<lparr>success = True, messageId = i, emailError = None\<rparr>)"

definition sendEmail3 :: "World \<Rightarrow> EmailParams \<Rightarrow> Effect list \<times> (thrown + EmailResult)" where
  "sendEmail3 w params =
     (let apiKey = RESEND_API_KEY (env w);
          fromEmail = fromAddress (env w)
      in if \<not> truthy apiKey
         then ([], Inr \<lparr>success = True, messageId = Some (mockMessageId (dateNow w)),
                        emailError = None\<rparr>)
         else (let run = withRetry (resendAttempt w) (random w)
                           \<lparr>opt_maxRetries = Some 2, opt_baseDelayMs = Some 2000,
                            opt_maxDelayMs = None, opt_shouldRetry = None\<rparr>
               in (replicate (invocations run)
                     (PostEmail fromEmail (to params) (subject params) (body params)),
                   outcome run)))"

definition formatUserError :: "string option \<Rightarrow> string" where
  "formatUserError err =
     (let msg = (case err of None \<Rightarrow> ''null'' | Some s \<Rightarrow> s)
      in if strIncludes msg ''timeout'' \<or> strIncludes msg ''network'' \<or> strIncludes msg ''ETIMEDOUT''
         then ''I'm having trouble connecting. Please try again in a moment.''
         else if strIncludes msg ''not found'' \<or> strIncludes msg ''404'' \<or> strIncludes msg ''PGRST116''
         then ''I couldn't find what you're looking for.''
         else if strIncludes msg ''permission'' \<or> strIncludes msg ''401'' \<or> strIncludes msg ''403''
         then ''I don't have permission to do that.''
         else if strIncludes msg ''rate limit'' \<or> strIncludes msg ''429''
         then ''I'm being rate limited. Please wait a moment and try again.''
         else ''Something went wrong. Please try rephrasing your request.'')"

definition responseIncludes :: "string option \<Rightarrow> string \<Rightarrow> bool" where
  "responseIncludes r sub = (case r of None \<Rightarrow> False | Some s \<Rightarrow> strIncludes s sub)"

definition errorRecovery3 :: "AgentState3 \<Rightarrow> AgentUpdate3" where
  "errorRecovery3 state =
     (if responseIncludes (response3 state) crossMark \<or> responseIncludes (response3 state) ''trouble''
      then noUpdate3\<lparr>upd_error3 := Present None, upd_errorDetails3 := Present None\<rparr>
      else noUpdate3\<lparr>upd_response3 := Present (Some
               (warningSign @ '' '' @ formatUserError (error3 state) @ newline @ newline @
                ''Try:'' @ newline @ ''- Rephrasing your request'' @ newline @
                ''- Asking about something else'' @ newline @
                ''- Waiting a moment and trying again'')),
             upd_error3 := Present None, upd_errorDetails3 := Present None,
             upd_pendingAction3 := Present None, upd_approvalStatus3 := Present None\<rparr>)"

definition humanReview3 :: "World \<Rightarrow> AgentState3 \<Rightarrow> AgentUpdate3" where
  "humanReview3 w state =
     (if AUTO_APPROVE (env w) = Some ''true''
      then noUpdate3\<lparr>upd_approvalStatus3 := Present (Some approved)\<rparr>
      else if AUTO_APPROVE (env w) = Some ''false''
      then noUpdate3\<lparr>upd_approvalStatus3 := Present (Some rejected)\<rparr>
      else noUpdate3)"

definition handleRejection3 :: "AgentState3 \<Rightarrow> AgentUpdate3" where
  "handleRejection3 state =
     noUpdate3\<lparr>upd_response3 := Present (Some
         (crossMark @ '' Email not sent. Let me know if you'd like to do something else.'')),
       upd_pendingAction3 := Present None,
       upd_approvalStatus3 := Present None\<rparr>"

definition routeByIntent3 :: "AgentState3 \<Rightarrow> string" where
  "routeByIntent3 state =
     (if truthy (error3 state) then ''error_recovery''
      else (case intent3 state of
              None \<Rightarrow> ''handle_other''
            | Some i \<Rightarrow>
                if intentType i = ''lookup'' then ''handle_lookup''
                else if intentType i = ''followup'' then ''handle_followup''
                else ''handle_other''))"

definition routeAfterFollowup3 :: "AgentState3 \<Rightarrow> string" where
  "routeAfterFollowup3 state =
     (if truthy (error3 state) then ''error_recovery''
      else if approvalStatus3 state = Some pending then ''human_review''
      else ''end'')"

definition routeAfterReview3 :: "AgentState3 \<Rightarrow> string" where
  "routeAfterReview3 state =
     (if approvalStatus3 state = Some approved then ''execute_email''
      else if approvalStatus3 state = Some rejected then ''handle_rejection''
      else ''end'')"

text \<open>The edges of the resilient graph, as \<open>addConditionalEdges\<close> and \<open>addEdge\<close> declare
  them.\<close>

definition edges3 :: "(string \<times> AgentState3 Edge) list" where
  "edges3 =
     [(''understand_request'',
         Conditional routeByIntent3
           [(''handle_lookup'', Goto ''handle_lookup''),
            (''handle_followup'', Goto ''handle_followup''),
            (''handle_other'', Goto ''handle_other''),
            (''error_recovery'', Goto ''error_recovery'')]),
      (''handle_followup'',
         Conditional routeAfterFollowup3
           [(''human_review'', Goto ''human_review''),
            (''error_recovery'', Goto ''error_recovery''),
            (''end'', END)]),
      (''human_review'',
         Conditional routeAfterReview3
           [(''execute_email'', Goto ''execute_email''),
            (''handle_rejection'', Goto ''handle_rejection''),
            (''end'', END)]),
      (''handle_lookup'', Always END),
      (''handle_other'', Always END),
      (''execute_email'', Always END),
      (''handle_rejection'', Always END),
      (''error_recovery'', Always END)]"

section \<open>Exercise 4: the deployed agent\<close>

record AgentState4 =
  userMessage4 :: string
  intent4 :: "Intent option"
  leads4 :: "Lead list"
  selectedLead4 :: "Lead option"
  pendingAction4 :: "PendingAction option"
  approvalStatus4 :: "ApprovalStatus option"
  response4 :: "string option"
  error4 :: "string option"

record AgentUpdate4 =
  upd_userMessage4 :: "string upd"
  upd_intent4 :: "Intent option upd"
  upd_leads4 :: "Lead list upd"
  upd_selectedLead4 :: "Lead option upd"
  upd_pendingAction4 :: "PendingAction option upd"
  upd_approvalStatus4 :: "ApprovalStatus option upd"
  upd_response4 :: "string option upd"
  upd_error4 :: "string option upd"

definition noUpdate4 :: AgentUpdate4 where
  "noUpdate4 = \<lparr>upd_userMessage4 = Absent, upd_intent4 = Absent, upd_leads4 = Absent,
                 upd_selectedLead4 = Absent, upd_pendingAction4 = Absent,
                 upd_approvalStatus4 = Absent, upd_response4 = Absent, upd_error4 = Absent\<rparr>"

definition channels4 :: "AgentState4 \<Rightarrow> AgentUpdate4 \<Rightarrow> AgentState4" where
  "channels4 a b =
     \<lparr>userMessage4 = channel (userMessage4 a) (upd_userMessage4 b),
      intent4 = channelNullable (intent4 a) (upd_intent4 b),
      leads4 = channel (leads4 a) (upd_leads4 b),
      selectedLead4 = channelNullable (selectedLead4 a) (upd_selectedLead4 b),
      pendingAction4 = channelNullable (pendingAction4 a) (upd_pendingAction4 b),
      approvalStatus4 = channelNullable (approvalStatus4 a) (upd_approvalStatus4 b),
      response4 = channelNullable (response4 a) (upd_response4 b),
      error4 = channelNullable (error4 a) (upd_error4 b)\<rparr>"

text \<open>\<open>sendEmail(to, subject, body)\<close> of exercise 4: one request, every failure turned into
  a result.\<close>

definition sendEmail4 :: "World \<Rightarrow> string \<Rightarrow> string \<Rightarrow> string \<Rightarrow> Effect list \<times> EmailResult" where
  "sendEmail4 w t subj txt =
     (let apiKey = RESEND_API_KEY (env w)
      in if \<not> truthy apiKey
         then ([], \<lparr>success = True, messageId = Some (mockMessageId (dateNow w)),
                    emailError = None\<rparr>)
         else ([PostEmail (fromAddress (env w)) t subj txt],
               (case resend w 1 of
                  FetchThrows msg \<Rightarrow> \<lparr>success = False, messageId = None, emailError = Some msg\<rparr>
                | FetchNotOk st errorBody \<Rightarrow>
                    \<lparr>success = False, messageId = None, emailError = Some errorBody\<rparr>
                | FetchOk (Inl msg) \<Rightarrow> \<lparr>success = False, messageId = None, emailError = Some msg\<rparr>
                | FetchOk (Inr i) \<Rightarrow> \<lparr>success = True, messageId = i, emailError = None\<rparr>)))"

definition needsApproval :: "World \<Rightarrow> string \<Rightarrow> Lead option \<Rightarrow> bool" where
  "needsApproval w action lead =
     (if action = ''send_email'' then True
      else if action = ''update_lead'' \<and>
              (case lead of None \<Rightarrow> False | Some l \<Rightarrow> score l > HIGH_VALUE_THRESHOLD w)
      then True
      else False)"

text \<open>\<open>state.intent?.target\<close>, when it is truthy.\<close>

definition intentTarget :: "Intent option \<Rightarrow> string option" where
  "intentTarget i =
     (case i of
        None \<Rightarrow> None
      | Some v \<Rightarrow> (case target v of None \<Rightarrow> None | Some t \<Rightarrow> if t = [] then None else Some t))"

definition understandRequest4 :: "World \<Rightarrow> AgentState4 \<Rightarrow> Effect list \<times> (string + AgentUpdate4)" where
  "understandRequest4 w state =
     (let run = withRetry4 (anthropic w (userMessage4 state)) 3;
          fx = replicate (invocations run) (LlmRequest (userMessage4 state));
          failed = (\<lambda>msg. noUpdate4\<lparr>upd_error4 := Present (Some msg),
                      upd_response4 := Present (Some
                        ''I had trouble understanding that. Please try again.'')\<rparr>)
      in case outcome run of
           Inl ThrownUndefined \<Rightarrow> (fx, Inl ''TypeError'')
         | Inl (Thrown e) \<Rightarrow> (fx, Inr (failed (message e)))
         | Inr txt \<Rightarrow>
             (case parseIntent w txt of
                Inl msg \<Rightarrow> (fx, Inr (failed msg))
              | Inr intent \<Rightarrow> (fx, Inr (noUpdate4\<lparr>upd_intent4 := Present (Some intent)\<rparr>))))"

definition leadLine4 :: "nat \<times> Lead \<Rightarrow> string" where
  "leadLine4 p =
     (case p of (i, l) \<Rightarrow>
        showNat (i + 1) @ ''. **'' @ company_name l @ ''** ('' @ contact_name l @ '')'' @ newline @
        ''   Score: '' @ showInt (score l) @ '' | Status: '' @ lead_status l)"

definition handleLookup4 :: "World \<Rightarrow> AgentState4 \<Rightarrow> Effect list \<times> (string + AgentUpdate4)" where
  "handleLookup4 w state =
     (let tgt = (case intentTarget (intent4 state) of None \<Rightarrow> [] | Some t \<Rightarrow> toLowerCase t);
          query = (if tgt = ''hot'' \<or> tgt = ''high value'' then ScoreAbove 80
                   else if tgt \<noteq> [] \<and> tgt \<noteq> ''all'' then NameLike (''%'' @ tgt @ ''%'')
                   else AllLeads);
          failed = (\<lambda>msg. noUpdate4\<lparr>upd_error4 := Present (Some msg),
                      upd_response4 := Present (Some ''Failed to fetch leads. Please try again.'')\<rparr>);
          noneFound = noUpdate4\<lparr>upd_response4 := Present (Some
                        (''No leads found'' @
                         (if tgt \<noteq> [] then '' matching '' @ quote @ tgt @ quote else []) @ ''.''))\<rparr>
      in ([SelectLeads query],
          Inr (case selectLeads w query of
                 DbThrows msg \<Rightarrow> failed msg
               | DbResult d (Some msg) \<Rightarrow> failed msg
               | DbResult None None \<Rightarrow> noneFound
               | DbResult (Some []) None \<Rightarrow> noneFound
               | DbResult (Some (l # ls)) None \<Rightarrow>
                   noUpdate4\<lparr>upd_leads4 := Present (l # ls),
                     upd_response4 := Present (Some
                       (''Found '' @ showNat (length (l # ls)) @ '' lead(s):'' @ newline @ newline @
                        joinWith (newline @ newline)
                          (map leadLine4 (zip [0 ..< length (l # ls)] (l # ls)))))\<rparr>)))"

definition arrow :: string where
  "arrow = [CHR 0xE2, CHR 0x86, CHR 0x92]"

definition bullet :: string where
  "bullet = [CHR 0xE2, CHR 0x80, CHR 0xA2]"

definition statusChange4 :: "string \<Rightarrow> (string \<times> string) list" where
  "statusChange4 msg =
     (if strIncludes msg ''won'' then [(''status'', ''won'')]
      else if strIncludes msg ''lost'' then [(''status'', ''lost'')]
      else if strIncludes msg ''qualified'' then [(''status'', ''qualified'')]
      else [])"

definition changedStatus :: "(string \<times> string) list \<Rightarrow> string" where
  "changedStatus cs = (case map_of cs ''status'' of None \<Rightarrow> ''undefined'' | Some v \<Rightarrow> v)"

definition handleUpdate4 :: "World \<Rightarrow> AgentState4 \<Rightarrow> Effect list \<times> (string + AgentUpdate4)" where
  "handleUpdate4 w state =
     (case intentTarget (intent4 state) of
        None \<Rightarrow> ([], Inr (noUpdate4\<lparr>upd_response4 := Present (Some
                      ''Which lead would you like to update?'')\<rparr>))
      | Some tgt \<Rightarrow>
          (let query = NameLike (''%'' @ tgt @ ''%'');
               failed = (\<lambda>msg. noUpdate4\<lparr>upd_error4 := Present (Some msg),
                           upd_response4 := Present (Some ''Failed to update. Please try again.'')\<rparr>);
               notFound = noUpdate4\<lparr>upd_response4 := Present (Some
                            (''Couldn't find '' @ quote @ tgt @ quote @ ''.''))\<rparr>
           in case selectLeads w query of
                DbThrows msg \<Rightarrow> ([SelectLeads query], Inr (failed msg))
              | DbResult None err \<Rightarrow> ([SelectLeads query], Inr notFound)
              | DbResult (Some []) err \<Rightarrow> ([SelectLeads query], Inr notFound)
              | DbResult (Some (lead # rest)) err \<Rightarrow>
                  (let cs = statusChange4 (toLowerCase (userMessage4 state))
                   in if cs = [] then
                        ([SelectLeads query],
                         Inr (noUpdate4\<lparr>upd_response4 := Present (Some
                                (''What would you like to change about '' @ company_name lead @ ''?'')),
                              upd_selectedLead4 := Present (Some lead)\<rparr>))
                      else if needsApproval w ''update_lead'' (Some lead) then
                        ([SelectLeads query],
                         Inr (noUpdate4\<lparr>upd_selectedLead4 := Present (Some lead),
                              upd_pendingAction4 := Present (Some
                                \<lparr>actionType = update_lead, leadId = id lead,
                                 leadName = company_name lead, changes = Some cs,
                                 emailContent = None\<rparr>),
                              upd_approvalStatus4 := Present (Some pending),
                              upd_response4 := Present (Some
                                (warningSign @ '' **Approval Required**'' @ newline @ newline @
                                 ''Update '' @ company_name lead @ '' (Score: '' @
                                 showInt (score lead) @ ''):'' @ newline @ ''- status: '' @
                                 lead_status lead @ '' '' @ arrow @ '' '' @ changedStatus cs @
                                 newline @ newline @ ''This is a high-value lead.''))\<rparr>))
                      else
                        (case writeThrows w (UpdateLead (id lead) cs) of
                           Some msg \<Rightarrow>
                             ([SelectLeads query, UpdateLead (id lead) cs], Inr (failed msg))
                         | None \<Rightarrow>
                             ([SelectLeads query, UpdateLead (id lead) cs],
                              Inr (noUpdate4\<lparr>upd_response4 := Present (Some
                                     (checkMark @ '' Updated '' @ company_name lead @
                                      ''! New status: '' @ changedStatus cs))\<rparr>))))))"

definition followupEmail4 :: "Lead \<Rightarrow> EmailParams" where
  "followupEmail4 lead =
     \<lparr>to = contact_email lead,
      subject = ''Following up - '' @ company_name lead,
      body = ''Hi '' @ contact_name lead @ '','' @ newline @ newline @
             ''I wanted to follow up on our conversation about '' @ company_name lead @ ''.'' @
             newline @ newline @ ''Best regards''\<rparr>"

definition handleFollowup4 :: "World \<Rightarrow> AgentState4 \<Rightarrow> Effect list \<times> (string + AgentUpdate4)" where
  "handleFollowup4 w state =
     (case intentTarget (intent4 state) of
        None \<Rightarrow> ([], Inr (noUpdate4\<lparr>upd_response4 := Present (Some
                      ''Who would you like to follow up with?'')\<rparr>))
      | Some tgt \<Rightarrow>
          (let query = NameLike (''%'' @ tgt @ ''%'');
               notFound = noUpdate4\<lparr>upd_response4 := Present (Some
                            (''Couldn't find '' @ quote @ tgt @ quote @ ''.''))\<rparr>
           in case selectLeads w query of
                DbThrows msg \<Rightarrow>
                  ([SelectLeads query],
                   Inr (noUpdate4\<lparr>upd_error4 := Present (Some msg),
                          upd_response4 := Present (Some
                            ''Failed to prepare email. Please try again.'')\<rparr>))
              | DbResult None err \<Rightarrow> ([SelectLeads query], Inr notFound)
              | DbResult (Some []) err \<Rightarrow> ([SelectLeads query], Inr notFound)
              | DbResult (Some (lead # rest)) err \<Rightarrow>
                  (let mail = followupEmail4 lead
                   in ([SelectLeads query],
                       Inr (noUpdate4\<lparr>upd_selectedLead4 := Present (Some lead),
                            upd_pendingAction4 := Present (Some
                              \<lparr>actionType = send_email, leadId = id lead,
                               leadName = company_name lead, changes = None,
                               emailContent = Some mail\<rparr>),
                            upd_approvalStatus4 := Present (Some pending),
                            upd_response4 := Present (Some
                              (envelope @ '' Ready to send to '' @ contact_name lead @ '':'' @
                               newline @ newline @ ''**Subject:** '' @ subject mail @
                               newline @ newline @ body mail @ newline @ newline @
                               hourglass @ '' Awaiting approval...''))\<rparr>)))))"

definition handleOther4 :: "World \<Rightarrow> AgentState4 \<Rightarrow> Effect list \<times> (string + AgentUpdate4)" where
  "handleOther4 w state =
     ([], Inr (noUpdate4\<lparr>upd_response4 := Present (Some
         (''Try:'' @ newline @ bullet @ '' '' @ quote @ ''Show me leads'' @ quote @ newline @
          bullet @ '' '' @ quote @ ''Mark TechCorp as won'' @ quote @ newline @
          bullet @ '' '' @ quote @ ''Send follow-up to Sophie'' @ quote))\<rparr>))"

definition humanReview4 :: "World \<Rightarrow> AgentState4 \<Rightarrow> Effect list \<times> (string + AgentUpdate4)" where
  "humanReview4 w state =
     (if AUTO_APPROVE (env w) = Some ''true''
      then ([], Inr (noUpdate4\<lparr>upd_approvalStatus4 := Present (Some approved)\<rparr>))
      else if AUTO_APPROVE (env w) = Some ''false''
      then ([], Inr (noUpdate4\<lparr>upd_approvalStatus4 := Present (Some rejected)\<rparr>))
      else ([], Inr noUpdate4))"

definition afterWrites ::
  "World \<Rightarrow> Effect list \<Rightarrow> Effect list \<Rightarrow> AgentUpdate4 \<Rightarrow> Effect list \<times> (string + AgentUpdate4)" where
  "afterWrites w before writes u =
     (case performWrites w writes of
        (done, Some msg) \<Rightarrow> (before @ done, Inl msg)
      | (done, None) \<Rightarrow> (before @ done, Inr u))"

definition executeApproved :: "World \<Rightarrow> AgentState4 \<Rightarrow> Effect list \<times> (string + AgentUpdate4)" where
  "executeApproved w state =
     (case pendingAction4 state of
        None \<Rightarrow> ([], Inr (noUpdate4\<lparr>upd_error4 := Present (Some ''No pending action'')\<rparr>))
      | Some p \<Rightarrow>
          (case (actionType p, changes p, emailContent p) of
             (update_lead, Some cs, mail) \<Rightarrow>
               afterWrites w []
                 [UpdateLead (leadId p) cs,
                  InsertInteraction (leadId p) ''status_change''
                    (''Updated: '' @ stringifyChanges cs)]
                 (noUpdate4\<lparr>upd_response4 := Present (Some
                      (checkMark @ '' Updated '' @ leadName p @ ''!'')),
                    upd_pendingAction4 := Present None,
                    upd_approvalStatus4 := Present None\<rparr>)
           | (send_email, cs, Some mail) \<Rightarrow>
               (case sendEmail4 w (to mail) (subject mail) (body mail) of
                  (fx, r) \<Rightarrow>
                    if \<not> success r then
                      (fx, Inr (noUpdate4\<lparr>upd_error4 := Present (emailError r),
                                 upd_response4 := Present (Some
                                   (crossMark @ '' Failed: '' @
                                    (case emailError r of None \<Rightarrow> ''undefined'' | Some e \<Rightarrow> e)))\<rparr>))
                    else
                      afterWrites w fx
                        [InsertInteraction (leadId p) ''email_sent''
                           (''Sent: '' @ quote @ subject mail @ quote),
                         UpdateLead (leadId p) [(''last_contacted_at'', isoNow w)]]
                        (noUpdate4\<lparr>upd_response4 := Present (Some (checkMark @ '' Email sent!'')),
                           upd_pendingAction4 := Present None,
                           upd_approvalStatus4 := Present None\<rparr>))
           | _ \<Rightarrow> ([], Inr (noUpdate4\<lparr>upd_error4 := Present (Some ''Unknown action type'')\<rparr>))))"

definition handleRejection4 :: "World \<Rightarrow> AgentState4 \<Rightarrow> Effect list \<times> (string + AgentUpdate4)" where
  "handleRejection4 w state =
     ([], Inr (noUpdate4\<lparr>upd_response4 := Present (Some (crossMark @ '' Action rejected.'')),
                 upd_pendingAction4 := Present None,
                 upd_approvalStatus4 := Present None\<rparr>))"

definition routeByIntent4 :: "AgentState4 \<Rightarrow> string" where
  "routeByIntent4 state =
     (if truthy (error4 state) then ''end''
      else (case intent4 state of
              None \<Rightarrow> ''handle_other''
            | Some i \<Rightarrow>
                if intentType i = ''lookup'' then ''handle_lookup''
                else if intentType i = ''update'' then ''handle_update''
                else if intentType i = ''followup'' then ''handle_followup''
                else ''handle_other''))"

definition routeAfterAction :: "AgentState4 \<Rightarrow> string" where
  "routeAfterAction state =
     (if approvalStatus4 state = Some pending then ''human_review'' else ''end'')"

definition routeAfterReview :: "AgentState4 \<Rightarrow> string" where
  "routeAfterReview state =
     (if approvalStatus4 state = Some approved then ''execute_approved''
      else if approvalStatus4 state = Some rejected then ''handle_rejection''
      else ''end'')"

definition workflow4 :: "World \<Rightarrow> (AgentState4, AgentUpdate4, Effect) StateGraph" where
  "workflow4 w =
     \<lparr>channels = channels4,
      nodes = [(''understand_request'', understandRequest4 w),
               (''handle_lookup'', handleLookup4 w),
               (''handle_update'', handleUpdate4 w),
               (''handle_followup'', handleFollowup4 w),
               (''handle_other'', handleOther4 w),
               (''human_review'', humanReview4 w),
               (''execute_approved'', executeApproved w),
               (''handle_rejection'', handleRejection4 w)],
      entryPoint = ''understand_request'',
      edges = [(''understand_request'',
                  Conditional routeByIntent4
                    [(''handle_lookup'', Goto ''handle_lookup''),
                     (''handle_update'', Goto ''handle_update''),
                     (''handle_followup'', Goto ''handle_followup''),
                     (''handle_other'', Goto ''handle_other''),
                     (''end'', END)]),
               (''handle_update'',
                  Conditional routeAfterAction
                    [(''human_review'', Goto ''human_review''), (''end'', END)]),
               (''handle_followup'',
                  Conditional routeAfterAction
                    [(''human_review'', Goto ''human_review''), (''end'', END)]),
               (''human_review'',
                  Conditional routeAfterReview
                    [(''execute_approved'', Goto ''execute_approved''),
                     (''handle_rejection'', Goto ''handle_rejection''),
                     (''end'', END)]),
               (''handle_lookup'', Always END),
               (''handle_other'', Always END),
               (''execute_approved'', Always END),
               (''handle_rejection'', Always END)]\<rparr>"

definition initialState4 :: "string \<Rightarrow> AgentState4" where
  "initialState4 msg =
     \<lparr>userMessage4 = msg, intent4 = None, leads4 = [], selectedLead4 = None,
      pendingAction4 = None, approvalStatus4 = None, response4 = None, error4 = None\<rparr>"

record PendingApproval =
  actionId :: string
  approvalType :: ActionType
  description :: string

record AgentResponse =
  agentSuccess :: bool
  agentMessage :: string
  dataLeads :: "Lead list option"
  dataPendingApproval :: "PendingApproval option"
  agentError :: "string option"

definition actionTypeName :: "ActionType \<Rightarrow> string" where
  "actionTypeName t = (case t of update_lead \<Rightarrow> ''update_lead'' | send_email \<Rightarrow> ''send_email'')"

text \<open>\<open>runAgent(message)\<close>, run with a step budget. Whatever \<open>invoke\<close> throws, the budget
  error included, is caught and answered with "Agent failed", so there is always an answer.\<close>

definition runAgent :: "World \<Rightarrow> nat \<Rightarrow> string \<Rightarrow> AgentResponse option" where
  "runAgent w budget msg =
     (case fst (invoke (workflow4 w) budget (initialState4 msg)) of
        StepBudgetExceededError n s \<Rightarrow>
          Some \<lparr>agentSuccess = False, agentMessage = ''Agent failed'', dataLeads = None,
                dataPendingApproval = None, agentError = Some ''Step budget exceeded''\<rparr>
      | Threw e \<Rightarrow>
          Some \<lparr>agentSuccess = False, agentMessage = ''Agent failed'', dataLeads = None,
                dataPendingApproval = None, agentError = Some e\<rparr>
      | Invalid n \<Rightarrow>
          Some \<lparr>agentSuccess = False, agentMessage = ''Agent failed'', dataLeads = None,
                dataPendingApproval = None, agentError = Some n\<rparr>
      | Completed r \<Rightarrow>
          Some \<lparr>agentSuccess = \<not> truthy (error4 r),
                agentMessage = orElse (response4 r) ''No response'',
                dataLeads = (if leads4 r \<noteq> [] then Some (leads4 r) else None),
                dataPendingApproval =
                  (case pendingAction4 r of
                     None \<Rightarrow> None
                   | Some p \<Rightarrow>
                       Some \<lparr>actionId = leadId p, approvalType = actionType p,
                             description = actionTypeName (actionType p) @ '' for '' @ leadName p\<rparr>),
                agentError = (if truthy (error4 r) then error4 r else None)\<rparr>)"

text \<open>The HTTP handler. A request is its method and its JSON body (\<open>None\<close> when
  \<open>req.json()\<close> throws); an answer is its status and what it carries.\<close>

record RequestBody =
  reqMessage :: "string option"
  reqAction :: "string option"
  reqActionId :: "string option"

record Request =
  reqMethod :: string
  reqBody :: "RequestBody option"

datatype Payload =
    PlainText string
  | Decision bool string
  | ErrorOnly string
  | AgentAnswer AgentResponse

record HttpResponse =
  httpStatus :: nat
  payload :: Payload

definition serve :: "World \<Rightarrow> nat \<Rightarrow> Request \<Rightarrow> HttpResponse option" where
  "serve w budget req =
     (if reqMethod req = ''OPTIONS'' then Some \<lparr>httpStatus = 200, payload = PlainText ''ok''\<rparr>
      else (case reqBody req of
              None \<Rightarrow> Some \<lparr>httpStatus = 500, payload = ErrorOnly ''Internal error''\<rparr>
            | Some b \<Rightarrow>
                if reqAction b = Some ''approve'' \<or> reqAction b = Some ''reject'' then
                  Some \<lparr>httpStatus = 200,
                        payload = Decision True
                          (''Action '' @
                           (case reqActionId b of None \<Rightarrow> ''undefined'' | Some i \<Rightarrow> i) @
                           '' '' @ (case reqAction b of None \<Rightarrow> [] | Some a \<Rightarrow> a) @ ''ed.'')\<rparr>
                else if \<not> truthy (reqMessage b) then
                  Some \<lparr>httpStatus = 400,
                        payload = ErrorOnly (''Missing '' @ [CHR 0x27] @ ''message'' @ [CHR 0x27])\<rparr>
                else (case runAgent w budget (orElse (reqMessage b) []) of
                        None \<Rightarrow> None
                      | Some r \<Rightarrow> Some \<lparr>httpStatus = 200, payload = AgentAnswer r\<rparr>)))"

text \<open>The requests of a session, answered in order. The handler keeps nothing between two
  requests.\<close>

definition serveAll :: "World \<Rightarrow> nat \<Rightarrow> Request list \<Rightarrow> HttpResponse option list" where
  "serveAll w budget reqs = map (serve w budget) reqs"

section \<open>The approval gate as a property of a run\<close>

text \<open>An effect that changes the outside world: a write to the store or a message sent.\<close>

definition isWrite :: "Effect \<Rightarrow> bool" where
  "isWrite e =
     (case e of
        UpdateLead i cs \<Rightarrow> True
      | InsertInteraction i t d \<Rightarrow> True
      | PostEmail f t s b \<Rightarrow> True
      | _ \<Rightarrow> False)"

definition isSend :: "Effect \<Rightarrow> bool" where
  "isSend e = (case e of PostEmail f t s b \<Rightarrow> True | _ \<Rightarrow> False)"

text \<open>The gate records approval: the review node turns a pending action's status from
  \<open>pending\<close> to \<open>approved\<close>.\<close>

definition recordsApproval :: "(AgentState4, Effect) Step \<Rightarrow> bool" where
  "recordsApproval st =
     (stepNode st = ''human_review'' \<and>
      pendingAction4 (stepBefore st) \<noteq> None \<and>
      pendingAction4 (stepAfter st) = pendingAction4 (stepBefore st) \<and>
      approvalStatus4 (stepBefore st) = Some pending \<and>
      approvalStatus4 (stepAfter st) = Some approved)"

text \<open>What a step may do, given the step before it. The execute node runs only right after
  the gate recorded approval of the action it finds pending. The update node may write
  directly only while no action is pending and none is created (a lead that needs no approval),
  and never sends. No other node writes or sends.\<close>

definition stepAllowed ::
  "(AgentState4, Effect) Step option \<Rightarrow> (AgentState4, Effect) Step \<Rightarrow> bool" where
  "stepAllowed prev st =
     (if stepNode st = ''execute_approved'' then
        (case prev of
           None \<Rightarrow> False
         | Some p \<Rightarrow> recordsApproval p \<and> stepBefore st = stepAfter p)
      else if stepNode st = ''handle_update'' then
        \<not> list_ex isSend (stepEffects st) \<and>
        (list_ex isWrite (stepEffects st) \<longrightarrow>
           pendingAction4 (stepBefore st) = None \<and> pendingAction4 (stepAfter st) = None)
      else \<not> list_ex isWrite (stepEffects st))"

fun gateRespected ::
  "(AgentState4, Effect) Step option \<Rightarrow> (AgentState4, Effect) Step list \<Rightarrow> bool" where
  "gateRespected prev [] = True"
| "gateRespected prev (st # rest) = (stepAllowed prev st \<and> gateRespected (Some st) rest)"

section \<open>Concrete inputs\<close>

definition err500 :: JsError where
  "err500 = \<lparr>message = ''upstream unavailable'', status = Some 500, response_status = None\<rparr>"

definition err404 :: JsError where
  "err404 = \<lparr>message = ''not found'', status = Some 404, response_status = None\<rparr>"

definition noOptions :: RetryOptionsPartial where
  "noOptions = \<lparr>opt_maxRetries = None, opt_baseDelayMs = None, opt_maxDelayMs = None,
                 opt_shouldRetry = None\<rparr>"

definition failsTwice :: "nat \<Rightarrow> JsError + string" where
  "failsTwice k = (if k < 3 then Inl err500 else Inr ''rows'')"

definition alwaysFails :: "JsError \<Rightarrow> nat \<Rightarrow> JsError + string" where
  "alwaysFails e k = Inl e"

definition trippedBreaker :: CircuitBreaker where
  "trippedBreaker = \<lparr>failures = 5, lastFailure = Some 5000\<rparr>"

definition techCorp :: Lead where
  "techCorp = \<lparr>id = ''lead-1'', company_name = ''TechCorp'', contact_name = ''Sophie'',
                contact_email = ''sophie@techcorp.example'', lead_status = ''qualified'',
                score = 92\<rparr>"

text \<open>A world where everything works: the model answers at once, the intent is a follow-up to
  TechCorp, the store holds that lead, the mail service accepts, approval is automatic.\<close>

definition demoWorld :: World where
  "demoWorld =
     \<lparr>env = \<lparr>AUTO_APPROVE = Some ''true'', RESEND_API_KEY = Some ''re_key'', EMAIL_FROM = None\<rparr>,
      HIGH_VALUE_THRESHOLD = 80,
      dateNow = 1700000000000,
      isoNow = ''2023-11-14T22:13:20.000Z'',
      anthropic = (\<lambda>msg k. Inr ''{}''),
      parseIntent = (\<lambda>txt. Inr \<lparr>intentType = ''followup'', target = Some ''TechCorp''\<rparr>),
      selectLeads = (\<lambda>q. DbResult (Some [techCorp]) None),
      writeThrows = (\<lambda>e. None),
      resend = (\<lambda>k. FetchOk (Inr (Some ''msg_1''))),
      random = (\<lambda>k. 1 / 2)\<rparr>"

definition noKeyWorld :: World where
  "noKeyWorld =
     demoWorld\<lparr>env := \<lparr>AUTO_APPROVE = Some ''true'', RESEND_API_KEY = None, EMAIL_FROM = None\<rparr>\<rparr>"

definition modelDownWorld :: World where
  "modelDownWorld = demoWorld\<lparr>anthropic := (\<lambda>msg k. Inl err500)\<rparr>"

definition localCafe :: Lead where
  "localCafe = \<lparr>id = ''lead-5'', company_name = ''LocalCafe'', contact_name = ''Emma'',
                 contact_email = ''emma@localcafe.example'', lead_status = ''new'', score = 40\<rparr>"

text \<open>A world where the request is an update of a lead below the approval threshold.\<close>

definition directWorld :: World where
  "directWorld =
     demoWorld\<lparr>parseIntent := (\<lambda>txt. Inr \<lparr>intentType = ''update'', target = Some ''LocalCafe''\<rparr>),
               selectLeads := (\<lambda>q. DbResult (Some [localCafe]) None)\<rparr>"

definition decisionRequest :: "string \<Rightarrow> string \<Rightarrow> Request" where
  "decisionRequest a i =
     \<lparr>reqMethod = ''POST'',
      reqBody = Some \<lparr>reqMessage = None, reqAction = Some a, reqActionId = Some i\<rparr>\<rparr>"

definition followupProposal :: PendingAction where
  "followupProposal =
     \<lparr>actionType = send_email, leadId = ''lead-1'', leadName = ''TechCorp'', changes = None,
      emailContent = Some \<lparr>to = ''sophie@techcorp.example'',
                           subject = ''Following up - TechCorp'', body = ''Hi Sophie''\<rparr>\<rparr>"

text \<open>The state of the resilient agent when a proposed follow-up has been rejected.\<close>

definition rejectedState3 :: AgentState3 where
  "rejectedState3 =
     \<lparr>userMessage3 = ''Send follow-up to TechCorp'',
      intent3 = Some \<lparr>intentType = ''followup'', target = Some ''techcorp''\<rparr>,
      leads3 = [], pendingAction3 = Some followupProposal, approvalStatus3 = Some rejected,
      response3 = Some ''Ready to send'', error3 = None, errorDetails3 = None\<rparr>"

text \<open>A state of the resilient agent after a lookup that failed.\<close>

definition failedLookupState3 :: AgentState3 where
  "failedLookupState3 =
     rejectedState3\<lparr>pendingAction3 := None, approvalStatus3 := None,
       error3 := Some ''connection timeout''\<rparr>"

text \<open>A state of the exercise-2 agent with the error field set.\<close>

definition erroredState2 :: AgentState2 where
  "erroredState2 =
     \<lparr>userMessage2 = ''Show me leads'',
      intent2 = Some \<lparr>intentType = ''lookup'', target = None\<rparr>,
      leads2 = [], selectedLead2 = None, pendingAction2 = None, approvalStatus2 = None,
      approvalReason2 = None, response2 = None, error2 = Some ''Lead not found''\<rparr>"

section \<open>The retry executor and the circuit breaker, verified\<close>

lemma retryLoop_exit:
  "\<not> int attempt \<le> maxRetries opts \<Longrightarrow>
   retryLoop fn rnd opts attempt le n ds =
     \<lparr>outcome = Inl (case le of None \<Rightarrow> ThrownUndefined | Some e \<Rightarrow> Thrown e),
      invocations = n, delays = ds\<rparr>"
  by (subst retryLoop.simps) simp

lemma retryLoop_return:
  "int attempt \<le> maxRetries opts \<Longrightarrow> fn (Suc n) = Inr v \<Longrightarrow>
   retryLoop fn rnd opts attempt le n ds = \<lparr>outcome = Inr v, invocations = Suc n, delays = ds\<rparr>"
  by (subst retryLoop.simps) simp

lemma retryLoop_throw:
  "int attempt \<le> maxRetries opts \<Longrightarrow> fn (Suc n) = Inl e \<Longrightarrow>
   int attempt = maxRetries opts \<or> \<not> askShouldRetry opts e \<Longrightarrow>
   retryLoop fn rnd opts attempt le n ds =
     \<lparr>outcome = Inl (Thrown e), invocations = Suc n, delays = ds\<rparr>"
  by (subst retryLoop.simps) auto

lemma retryLoop_again:
  "int attempt \<le> maxRetries opts \<Longrightarrow> fn (Suc n) = Inl e \<Longrightarrow>
   \<not> (int attempt = maxRetries opts \<or> \<not> askShouldRetry opts e) \<Longrightarrow>
   retryLoop fn rnd opts attempt le n ds =
     retryLoop fn rnd opts (Suc attempt) (Some e) (Suc n)
       (ds @ [retryDelay opts attempt (rnd attempt)])"
  by (subst retryLoop.simps) auto

lemma retryLoop_invocations_lower:
  "n \<le> invocations (retryLoop fn rnd opts attempt le n ds)"
proof (induction fn rnd opts attempt le n ds rule: retryLoop.induct)
  case (1 fn rnd opts attempt lastError n ds)
  consider (exit) "\<not> int attempt \<le> maxRetries opts"
    | (ret) v where "int attempt \<le> maxRetries opts" "fn (Suc n) = Inr v"
    | (thr) e where "int attempt \<le> maxRetries opts" "fn (Suc n) = Inl e"
        "int attempt = maxRetries opts \<or> \<not> askShouldRetry opts e"
    | (again) e where "int attempt \<le> maxRetries opts" "fn (Suc n) = Inl e"
        "\<not> (int attempt = maxRetries opts \<or> \<not> askShouldRetry opts e)"
    by (cases "fn (Suc n)") auto
  then show ?case
  proof cases
    case exit then show ?thesis by (simp add: retryLoop_exit)
  next
    case ret then show ?thesis by (simp add: retryLoop_return)
  next
    case thr then show ?thesis by (simp add: retryLoop_throw)
  next
    case again
    from "1.IH" [OF again(1) again(2) refl refl again(3)] again
    show ?thesis by (simp add: retryLoop_again)
  qed
qed

lemma retryLoop_invocations_entered:
  assumes "int attempt \<le> maxRetries opts"
  shows "Suc n \<le> invocations (retryLoop fn rnd opts attempt le n ds)"
proof -
  consider (ret) v where "fn (Suc n) = Inr v"
    | (thr) e where "fn (Suc n) = Inl e"
        "int attempt = maxRetries opts \<or> \<not> askShouldRetry opts e"
    | (again) e where "fn (Suc n) = Inl e"
        "\<not> (int attempt = maxRetries opts \<or> \<not> askShouldRetry opts e)"
    by (cases "fn (Suc n)") auto
  then show ?thesis
  proof cases
    case ret with assms show ?thesis by (simp add: retryLoop_return)
  next
    case thr with assms show ?thesis by (simp add: retryLoop_throw)
  next
    case again
    have "Suc n \<le> invocations (retryLoop fn rnd opts (Suc attempt) (Some e) (Suc n)
                (ds @ [retryDelay opts attempt (rnd attempt)]))"
      by (rule retryLoop_invocations_lower)
    with assms again show ?thesis by (simp add: retryLoop_again)
  qed
qed

lemma retryLoop_invocations_upper:
  "invocations (retryLoop fn rnd opts attempt le n ds) \<le> n + nat (maxRetries opts + 1 - int attempt)"
proof (induction fn rnd opts attempt le n ds rule: retryLoop.induct)
  case (1 fn rnd opts attempt lastError n ds)
  consider (exit) "\<not> int attempt \<le> maxRetries opts"
    | (ret) v where "int attempt \<le> maxRetries opts" "fn (Suc n) = Inr v"
    | (thr) e where "int attempt \<le> maxRetries opts" "fn (Suc n) = Inl e"
        "int attempt = maxRetries opts \<or> \<not> askShouldRetry opts e"
    | (again) e where "int attempt \<le> maxRetries opts" "fn (Suc n) = Inl e"
        "\<not> (int attempt = maxRetries opts \<or> \<not> askShouldRetry opts e)"
    by (cases "fn (Suc n)") auto
  then show ?case
  proof cases
    case exit then show ?thesis by (simp add: retryLoop_exit)
  next
    case ret then show ?thesis by (simp add: retryLoop_return)
  next
    case thr then show ?thesis by (simp add: retryLoop_throw)
  next
    case again
    from "1.IH" [OF again(1) again(2) refl refl again(3)] again
    show ?thesis by (simp add: retryLoop_again)
  qed
qed

lemma retryDelay_le: "retryDelay opts k r \<le> maxDelayMs opts"
  by (simp add: retryDelay_def)

lemma retryLoop_delays:
  "delays (retryLoop fn rnd opts attempt le n ds)
     = ds @ map (\<lambda>k. retryDelay opts k (rnd k))
              [attempt ..< attempt + (invocations (retryLoop fn rnd opts attempt le n ds) - Suc n)]"
proof (induction fn rnd opts attempt le n ds rule: retryLoop.induct)
  case (1 fn rnd opts attempt lastError n ds)
  consider (exit) "\<not> int attempt \<le> maxRetries opts"
    | (ret) v where "int attempt \<le> maxRetries opts" "fn (Suc n) = Inr v"
    | (thr) e where "int attempt \<le> maxRetries opts" "fn (Suc n) = Inl e"
        "int attempt = maxRetries opts \<or> \<not> askShouldRetry opts e"
    | (again) e where "int attempt \<le> maxRetries opts" "fn (Suc n) = Inl e"
        "\<not> (int attempt = maxRetries opts \<or> \<not> askShouldRetry opts e)"
    by (cases "fn (Suc n)") auto
  then show ?case
  proof cases
    case exit then show ?thesis by (simp add: retryLoop_exit)
  next
    case ret then show ?thesis by (simp add: retryLoop_return)
  next
    case thr then show ?thesis by (simp add: retryLoop_throw)
  next
    case again
    let ?r = "retryLoop fn rnd opts (Suc attempt) (Some e) (Suc n)
                (ds @ [retryDelay opts attempt (rnd attempt)])"
    have ih: "delays ?r = (ds @ [retryDelay opts attempt (rnd attempt)]) @
             map (\<lambda>k. retryDelay opts k (rnd k))
               [Suc attempt ..< Suc attempt + (invocations ?r - Suc (Suc n))]"
      by (rule "1.IH" [OF again(1) again(2) refl refl again(3)])
    have "int (Suc attempt) \<le> maxRetries opts" using again by simp
    then have low: "Suc (Suc n) \<le> invocations ?r" by (rule retryLoop_invocations_entered)
    then have e: "invocations ?r - Suc n = Suc (invocations ?r - Suc (Suc n))"
      by simp
    have u: "[attempt ..< attempt + Suc m] = attempt # [Suc attempt ..< Suc attempt + m]" for m
      by (simp add: upt_conv_Cons)
    have "[attempt ..< attempt + (invocations ?r - Suc n)]
            = attempt # [Suc attempt ..< Suc attempt + (invocations ?r - Suc (Suc n))]"
      unfolding e by (rule u)
    with ih again show ?thesis by (simp add: retryLoop_again)
  qed
qed

lemma retryLoop_terminal:
  "attempt = Suc n \<Longrightarrow> attempt \<le> k \<Longrightarrow>
   k \<le> invocations (retryLoop fn rnd opts attempt le n ds) \<Longrightarrow>
   fn k = Inl e \<Longrightarrow> int k = maxRetries opts \<or> \<not> askShouldRetry opts e \<Longrightarrow>
   invocations (retryLoop fn rnd opts attempt le n ds) = k \<and>
   outcome (retryLoop fn rnd opts attempt le n ds) = Inl (Thrown e)"
proof (induction fn rnd opts attempt le n ds rule: retryLoop.induct)
  case (1 fn rnd opts attempt lastError n ds)
  consider (exit) "\<not> int attempt \<le> maxRetries opts"
    | (ret) v where "int attempt \<le> maxRetries opts" "fn (Suc n) = Inr v"
    | (thr) e' where "int attempt \<le> maxRetries opts" "fn (Suc n) = Inl e'"
        "int attempt = maxRetries opts \<or> \<not> askShouldRetry opts e'"
    | (again) e' where "int attempt \<le> maxRetries opts" "fn (Suc n) = Inl e'"
        "\<not> (int attempt = maxRetries opts \<or> \<not> askShouldRetry opts e')"
    by (cases "fn (Suc n)") auto
  then show ?case
  proof cases
    case exit with "1.prems" show ?thesis by (simp add: retryLoop_exit)
  next
    case ret with "1.prems" show ?thesis by (auto simp add: retryLoop_return)
  next
    case thr with "1.prems" show ?thesis by (auto simp add: retryLoop_throw)
  next
    case again
    have ne: "k \<noteq> attempt" using again "1.prems" by auto
    with "1.prems" have k: "Suc attempt \<le> k" by simp
    from "1.prems" have s: "Suc attempt = Suc (Suc n)" by simp
    from "1.prems"(3) have k2: "k \<le> invocations (retryLoop fn rnd opts (Suc attempt) (Some e') (Suc n)
                (ds @ [retryDelay opts attempt (rnd attempt)]))"
      using again by (simp add: retryLoop_again)
    from "1.IH" [OF again(1) again(2) refl refl again(3) s k k2 "1.prems"(4) "1.prems"(5)] again
    show ?thesis by (simp add: retryLoop_again)
  qed
qed

lemma retryLoop4_invocations_upper:
  "invocations (retryLoop4 fn maxR attempt le n ds) \<le> n + nat (maxR + 1 - int attempt)"
proof (induction fn maxR attempt le n ds rule: retryLoop4.induct)
  case (1 fn maxR attempt lastError n ds)
  show ?case
  proof (cases "int attempt \<le> maxR")
    case False
    then show ?thesis by (subst retryLoop4.simps) simp
  next
    case True
    show ?thesis
    proof (cases "fn (Suc n)")
      case (Inr v)
      with True show ?thesis by (subst retryLoop4.simps) simp
    next
      case (Inl e)
      from "1.IH" [OF True Inl] True
      have "invocations (retryLoop4 fn maxR (Suc attempt) (Some e) (Suc n)
               (if int attempt < maxR then ds @ [1000 * real attempt] else ds))
             \<le> n + nat (maxR + 1 - int attempt)"
        by simp
      with True Inl show ?thesis by (subst retryLoop4.simps) simp
    qed
  qed
qed

lemma retryLoop4_delays:
  "set (delays (retryLoop4 fn maxR attempt le n ds)) \<subseteq> set ds \<union> {d. d \<le> 1000 * (real_of_int maxR - 1)}"
proof (induction fn maxR attempt le n ds rule: retryLoop4.induct)
  case (1 fn maxR attempt lastError n ds)
  show ?case
  proof (cases "int attempt \<le> maxR")
    case False
    then show ?thesis by (subst retryLoop4.simps) simp
  next
    case True
    show ?thesis
    proof (cases "fn (Suc n)")
      case (Inr v)
      with True show ?thesis by (subst retryLoop4.simps) simp
    next
      case (Inl e)
      let ?ds = "if int attempt < maxR then ds @ [1000 * real attempt] else ds"
      have ih: "set (delays (retryLoop4 fn maxR (Suc attempt) (Some e) (Suc n) ?ds))
              \<subseteq> set ?ds \<union> {d. d \<le> 1000 * (real_of_int maxR - 1)}"
        by (rule "1.IH" [OF True Inl])
      have "int attempt < maxR \<Longrightarrow> 1000 * real attempt \<le> 1000 * (real_of_int maxR - 1)"
      proof -
        assume "int attempt < maxR"
        then have "int attempt \<le> maxR - 1" by simp
        then have "real_of_int (int attempt) \<le> real_of_int (maxR - 1)" by (rule of_int_le_iff [THEN iffD2])
        then show ?thesis by simp
      qed
      then have "set ?ds \<subseteq> set ds \<union> {d. d \<le> 1000 * (real_of_int maxR - 1)}"
        by auto
      with ih have "set (delays (retryLoop4 fn maxR (Suc attempt) (Some e) (Suc n) ?ds))
              \<subseteq> set ds \<union> {d. d \<le> 1000 * (real_of_int maxR - 1)}"
        by blast
      with True Inl show ?thesis by (subst retryLoop4.simps) simp
    qed
  qed
qed

lemmas retry_eval = withRetry_def retryLoop.simps resolveOptions_def defaultRetryOptions_def
  noOptions_def failsTwice_def alwaysFails_def err500_def err404_def askShouldRetry_def
  defaultShouldRetry_def error_status_def retryDelay_def

text \<open>
  C4. With max attempts \<open>N\<close> the retry executor invokes the operation at most \<open>N\<close> times,
  and no wait between two attempts exceeds the policy's maximal delay. The deployed agent's
  simpler executor has no maximal delay in its policy: it also invokes at most \<open>N\<close> times,
  and waits at most \<open>1000 * (N - 1)\<close> ms.
\<close>

theorem withRetry_bounded:
  "int (invocations (withRetry fn rnd options)) \<le> max 0 (maxRetries (resolveOptions options)) \<and>
   (\<forall>d \<in> set (delays (withRetry fn rnd options)). d \<le> maxDelayMs (resolveOptions options)) \<and>
   int (invocations (withRetry4 fn maxR)) \<le> max 0 maxR \<and>
   (\<forall>d \<in> set (delays (withRetry4 fn maxR)). d \<le> 1000 * (real_of_int maxR - 1))"
proof (intro conjI)
  have "invocations (withRetry fn rnd options) \<le> nat (maxRetries (resolveOptions options))"
    using retryLoop_invocations_upper [of fn rnd "resolveOptions options" 1 None 0 "[]"]
    by (simp add: withRetry_def)
  then show "int (invocations (withRetry fn rnd options)) \<le> max 0 (maxRetries (resolveOptions options))"
    by linarith
next
  show "\<forall>d \<in> set (delays (withRetry fn rnd options)). d \<le> maxDelayMs (resolveOptions options)"
    unfolding withRetry_def
    by (subst retryLoop_delays) (auto simp add: retryDelay_le)
next
  have "invocations (withRetry4 fn maxR) \<le> nat maxR"
    using retryLoop4_invocations_upper [of fn maxR 1 None 0 "[]"]
    by (simp add: withRetry4_def)
  then show "int (invocations (withRetry4 fn maxR)) \<le> max 0 maxR"
    by linarith
next
  show "\<forall>d \<in> set (delays (withRetry4 fn maxR)). d \<le> 1000 * (real_of_int maxR - 1)"
    using retryLoop4_delays [of fn maxR 1 None 0 "[]"]
    by (auto simp add: withRetry4_def)
qed

theorem withRetry_bounded_witness:
  "invocations (withRetry failsTwice (\<lambda>k. 1 / 2) noOptions) = 3 \<and>
   int (invocations (withRetry failsTwice (\<lambda>k. 1 / 2) noOptions)) \<le> 3 \<and>
   delays (withRetry failsTwice (\<lambda>k. 1 / 2) noOptions) = [1050, 2100] \<and>
   list_all (\<lambda>d. d \<le> 10000) (delays (withRetry failsTwice (\<lambda>k. 1 / 2) noOptions)) \<and>
   invocations (withRetry4 failsTwice 3) = 3 \<and>
   delays (withRetry4 failsTwice 3) = [1000, 2000]"
  using withRetry_bounded [of failsTwice "\<lambda>k. 1 / 2" noOptions 3]
  by (simp add: retry_eval withRetry4_def retryLoop4.simps)

text \<open>
  C5, as the specification states it, fails: the code caps the delay after the jitter is
  applied, the formula before. After the fifth failed attempt, with base 1000, cap 10000 and
  jitter sample one half, the code waits 10000 ms where the formula gives 10500.
\<close>

theorem backoff_formula_counterexample:
  "delays (withRetry (alwaysFails err500) (\<lambda>k. 1 / 2) (noOptions\<lparr>opt_maxRetries := Some 6\<rparr>)) ! 4
     = 10000 \<and>
   specDelay 10000 1000 (1 / 10) 5 (1 / 2) = 10500"
  by (simp add: retry_eval specDelay_def)

text \<open>
  C5, amended. The wait after the failure of attempt \<open>n\<close> is
  \<open>min(base_delay * 2^(n-1) * (1 + random() * 0.1), max_delay)\<close>: the jitter fraction is the
  constant 0.1 and the cap is applied last. There is one wait after every attempt but the last.
\<close>

theorem withRetry_delays:
  "delays (withRetry fn rnd options) =
     map (\<lambda>n. min (baseDelayMs (resolveOptions options) * 2 ^ (n - 1) * (1 + rnd n * (1 / 10)))
                  (maxDelayMs (resolveOptions options)))
       [1 ..< invocations (withRetry fn rnd options)]"
proof -
  let ?r = "retryLoop fn rnd (resolveOptions options) 1 None 0 []"
  have "[1 ..< 1 + (invocations ?r - Suc 0)] = [1 ..< invocations ?r]"
    by (cases "invocations ?r") simp_all
  then show ?thesis
    unfolding withRetry_def
    by (subst retryLoop_delays) (simp add: retryDelay_def)
qed

text \<open>The lecture's \<open>calculateBackoff\<close> has no cap at all.\<close>

lemma calculateBackoff_uncapped:
  "0 < n \<Longrightarrow> calculateBackoff n base r = base * 2 ^ (n - 1) * (1 + r * (3 / 10))"
  by (simp add: calculateBackoff_def)

text \<open>
  C6, as stated, fails in its last part: the error thrown is the very error the operation
  raised, with nothing added. Two runs that end after one and after three invocations throw
  the same value, so no attempt count can be read off it.
\<close>

theorem retry_annotation_counterexample:
  "outcome (withRetry (alwaysFails err404) (\<lambda>k. 1 / 2) noOptions) = Inl (Thrown err404) \<and>
   invocations (withRetry (alwaysFails err404) (\<lambda>k. 1 / 2) noOptions) = 1 \<and>
   outcome (withRetry (alwaysFails err404) (\<lambda>k. 1 / 2)
              (noOptions\<lparr>opt_shouldRetry := Some (\<lambda>e. True)\<rparr>)) = Inl (Thrown err404) \<and>
   invocations (withRetry (alwaysFails err404) (\<lambda>k. 1 / 2)
              (noOptions\<lparr>opt_shouldRetry := Some (\<lambda>e. True)\<rparr>)) = 3"
  by (simp add: retry_eval)

text \<open>
  C6, amended. When the invocation number \<open>k\<close> fails with an error the classifier marks
  terminal, or \<open>k\<close> is the maximal number of attempts, the executor makes no further
  invocation and throws that error unchanged; the attempt count is logged, not attached.
\<close>

theorem withRetry_propagates:
  assumes "1 \<le> k" and "k \<le> invocations (withRetry fn rnd options)" and "fn k = Inl e"
    and "int k = maxRetries (resolveOptions options) \<or> \<not> askShouldRetry (resolveOptions options) e"
  shows "invocations (withRetry fn rnd options) = k \<and>
         outcome (withRetry fn rnd options) = Inl (Thrown e)"
  using retryLoop_terminal [of 1 0 k fn rnd "resolveOptions options" None "[]" e] assms
  by (simp add: withRetry_def)

theorem withRetry_propagates_witness:
  "invocations (withRetry (alwaysFails err500) (\<lambda>k. 1 / 2) noOptions) = 3 \<and>
   outcome (withRetry (alwaysFails err500) (\<lambda>k. 1 / 2) noOptions) = Inl (Thrown err500) \<and>
   invocations (withRetry (alwaysFails err404) (\<lambda>k. 0) noOptions) = 1 \<and>
   outcome (withRetry (alwaysFails err404) (\<lambda>k. 0) noOptions) = Inl (Thrown err404)"
proof -
  have a: "(3::nat) \<le> invocations (withRetry (alwaysFails err500) (\<lambda>k. 1 / 2) noOptions)"
    by (simp add: retry_eval)
  have b: "int 3 = maxRetries (resolveOptions noOptions) \<or>
           \<not> askShouldRetry (resolveOptions noOptions) err500"
    by (simp add: retry_eval)
  have c: "(1::nat) \<le> invocations (withRetry (alwaysFails err404) (\<lambda>k. 0) noOptions)"
    by (simp add: retry_eval)
  have d: "int 1 = maxRetries (resolveOptions noOptions) \<or>
           \<not> askShouldRetry (resolveOptions noOptions) err404"
    by (simp add: retry_eval)
  have f5: "alwaysFails err500 3 = (Inl err500 :: JsError + string)" by (simp add: alwaysFails_def)
  have f4: "alwaysFails err404 1 = (Inl err404 :: JsError + string)" by (simp add: alwaysFails_def)
  show ?thesis
    using withRetry_propagates [OF _ a f5 b] withRetry_propagates [OF _ c f4 d]
    by simp
qed

text \<open>
  C7. Through the circuit breaker: once the failure count has reached the threshold and the
  cooldown has not elapsed, \<open>execute\<close> answers "circuit open" without invoking the operation;
  a successful call resets the failure count to zero; after the cooldown a successful trial
  call closes the circuit for good, a failing one reopens it and restarts the cooldown clock.
\<close>

theorem circuit_breaker:
  "(threshold \<le> failures cb \<and> lastFailure cb = Some t \<and> now - t < resetTimeout \<longrightarrow>
      execute cb now fn failedAt =
        \<lparr>result = Inl (CircuitOpen ''Circuit breaker is open - service unavailable''),
         breaker = cb, invoked = False\<rparr>) \<and>
   (invoked (execute cb now (Inr v) failedAt) \<longrightarrow>
      failures (breaker (execute cb now (Inr v) failedAt)) = 0) \<and>
   (threshold \<le> failures cb \<and> lastFailure cb = Some t \<and> resetTimeout \<le> now - t \<longrightarrow>
      invoked (execute cb now (Inr v) failedAt) \<and>
      result (execute cb now (Inr v) failedAt) = Inr v \<and>
      (\<forall>later. \<not> isOpen (breaker (execute cb now (Inr v) failedAt)) later) \<and>
      invoked (execute cb now (Inl e) failedAt) \<and>
      result (execute cb now (Inl e) failedAt) = Inl (OperationFailed e) \<and>
      lastFailure (breaker (execute cb now (Inl e) failedAt)) = Some failedAt \<and>
      (\<forall>later. isOpen (breaker (execute cb now (Inl e) failedAt)) later
                 = (later - failedAt < resetTimeout)))"
  by (auto simp add: execute_def isOpen_def reset_def recordFailure_def threshold_def
      resetTimeout_def Let_def)

theorem circuit_breaker_witness:
  "execute trippedBreaker 6000 (Inr ''rows'' :: string + string) 6001 =
     \<lparr>result = Inl (CircuitOpen ''Circuit breaker is open - service unavailable''),
      breaker = trippedBreaker, invoked = False\<rparr> \<and>
   invoked (execute trippedBreaker 65000 (Inr ''rows'' :: string + string) 65001) \<and>
   failures (breaker (execute trippedBreaker 65000 (Inr ''rows'' :: string + string) 65001)) = 0 \<and>
   \<not> isOpen (breaker (execute trippedBreaker 65000 (Inr ''rows'' :: string + string) 65001)) 65002 \<and>
   invoked (execute trippedBreaker 65000 (Inl ''down'' :: string + string) 65001) \<and>
   isOpen (breaker (execute trippedBreaker 65000 (Inl ''down'' :: string + string) 65001)) 65002"
proof -
  have h1: "threshold \<le> failures trippedBreaker \<and> lastFailure trippedBreaker = Some 5000 \<and>
            6000 - 5000 < resetTimeout"
    by (simp add: trippedBreaker_def threshold_def resetTimeout_def)
  have h2: "threshold \<le> failures trippedBreaker \<and> lastFailure trippedBreaker = Some 5000 \<and>
            resetTimeout \<le> 65000 - 5000"
    by (simp add: trippedBreaker_def threshold_def resetTimeout_def)
  have l: "(65002::int) - 65001 < resetTimeout" by (simp add: resetTimeout_def)
  show ?thesis
    using circuit_breaker [of trippedBreaker 5000 6000 "Inr ''rows''" 6001 "''rows''" "''down''"]
      circuit_breaker [of trippedBreaker 5000 65000 "Inr ''rows''" 65001 "''rows''" "''down''"]
      h1 h2 l
    by (simp add: execute_def isOpen_def reset_def recordFailure_def threshold_def
        resetTimeout_def trippedBreaker_def Let_def)
qed

text \<open>A sequence of calls: five failures trip the breaker, the next call is refused, a trial
  after the cooldown fails and reopens it, a later trial succeeds and closes it.\<close>

lemma breaker_step:
  "executeAll cb ((now, fn, failedAt) # calls) =
     execute cb now fn failedAt # executeAll (breaker (execute cb now fn failedAt)) calls"
  by (simp add: Let_def)

lemma execute_fields:
  "invoked (execute cb now fn failedAt) = (\<not> isOpen cb now)"
  "breaker (execute cb now fn failedAt) =
     (if isOpen cb now then cb
      else case fn of Inr r \<Rightarrow> reset cb | Inl e \<Rightarrow> recordFailure cb failedAt)"
  by (simp_all add: execute_def split: sum.splits)

lemma circuit_breaker_scenario:
  "map (\<lambda>c. (invoked c, failures (breaker c)))
     (executeAll newCircuitBreaker
        [(1000, Inl ''down'', 1001), (2000, Inl ''down'', 2001), (3000, Inl ''down'', 3001),
         (4000, Inl ''down'', 4001), (5000, Inl ''down'', 5001), (6000, Inr ''rows'', 6001),
         (70000, Inl ''down'', 70001), (70002, Inr ''rows'', 70003),
         (170002, Inr ''rows'', 170003), (170004, Inr ''rows'', 170005)])
   = [(True, 1), (True, 2), (True, 3), (True, 4), (True, 5), (False, 5), (True, 6), (False, 6),
      (True, 0), (True, 0)]"
  by (simp add: breaker_step execute_fields newCircuitBreaker_def isOpen_def reset_def
      recordFailure_def threshold_def resetTimeout_def Let_def executeAll.simps(1)
      del: executeAll.simps(2))

section \<open>The run loop and its step budget\<close>

lemma runFrom_trace:
  "snd (runFrom g fuel n s tr) = tr @ snd (runFrom g fuel n s [])"
proof (induction fuel arbitrary: n s tr)
  case 0
  show ?case by simp
next
  case (Suc fuel)
  show ?case
  proof (cases "map_of (nodes g) n")
    case None
    then show ?thesis by simp
  next
    case (Some node)
    obtain fx r where ns: "node s = (fx, r)" by (cases "node s")
    show ?thesis
    proof (cases r)
      case (Inl msg)
      with Some ns show ?thesis by simp
    next
      case (Inr u)
      let ?st = "\<lparr>stepNode = n, stepBefore = s, stepEffects = fx, stepAfter = channels g s u\<rparr>"
      show ?thesis
      proof (cases "nextTarget g n (channels g s u)")
        case None
        with Some ns Inr show ?thesis by (simp add: Let_def)
      next
        case tgt: (Some t)
        show ?thesis
        proof (cases t)
          case END
          with Some ns Inr tgt show ?thesis by (simp add: Let_def)
        next
          case (Goto n')
          have a: "snd (runFrom g fuel n' (channels g s u) (tr @ [?st]))
                     = (tr @ [?st]) @ snd (runFrom g fuel n' (channels g s u) [])"
            by (rule Suc.IH)
          have b: "snd (runFrom g fuel n' (channels g s u) [?st])
                     = [?st] @ snd (runFrom g fuel n' (channels g s u) [])"
            by (rule Suc.IH)
          from Some ns Inr tgt Goto a b show ?thesis by (simp add: Let_def)
        qed
      qed
    qed
  qed
qed

lemma runFrom_trace_Suc:
  "snd (runFrom g (Suc k) n s []) =
     (case map_of (nodes g) n of
        None \<Rightarrow> []
      | Some node \<Rightarrow>
          (case node s of
             (fx, Inl msg) \<Rightarrow> [\<lparr>stepNode = n, stepBefore = s, stepEffects = fx, stepAfter = s\<rparr>]
           | (fx, Inr u) \<Rightarrow>
               \<lparr>stepNode = n, stepBefore = s, stepEffects = fx, stepAfter = channels g s u\<rparr> #
               (case nextTarget g n (channels g s u) of
                  Some (Goto n') \<Rightarrow> snd (runFrom g k n' (channels g s u) [])
                | _ \<Rightarrow> [])))"
proof -
  have "snd (runFrom g k n' s' [st]) = st # snd (runFrom g k n' s' [])" for n' s' st
    using runFrom_trace [of g k n' s' "[st]"] by simp
  then show ?thesis
    by (simp add: Let_def split: option.splits prod.splits sum.splits target.splits)
qed


lemma runFrom_budget:
  "length (snd (runFrom g b n s tr)) \<le> length tr + b \<and>
   (isBudgetExceeded (fst (runFrom g b n s tr)) \<longrightarrow>
      length (snd (runFrom g b n s tr)) = length tr + b)"
proof (induction b arbitrary: n s tr)
  case 0
  show ?case by simp
next
  case (Suc b)
  show ?case
  proof (cases "map_of (nodes g) n")
    case None
    then show ?thesis by (simp add: isBudgetExceeded_def)
  next
    case (Some node)
    obtain fx r where ns: "node s = (fx, r)" by (cases "node s")
    show ?thesis
    proof (cases r)
      case (Inl msg)
      with Some ns show ?thesis by (simp add: isBudgetExceeded_def)
    next
      case (Inr u)
      let ?st = "\<lparr>stepNode = n, stepBefore = s, stepEffects = fx, stepAfter = channels g s u\<rparr>"
      show ?thesis
      proof (cases "nextTarget g n (channels g s u)")
        case None
        with Some ns Inr show ?thesis by (simp add: Let_def isBudgetExceeded_def)
      next
        case tgt: (Some t)
        show ?thesis
        proof (cases t)
          case END
          with Some ns Inr tgt show ?thesis by (simp add: Let_def isBudgetExceeded_def)
        next
          case (Goto n')
          have "length (snd (runFrom g b n' (channels g s u) (tr @ [?st])))
                  \<le> length (tr @ [?st]) + b \<and>
                (isBudgetExceeded (fst (runFrom g b n' (channels g s u) (tr @ [?st]))) \<longrightarrow>
                   length (snd (runFrom g b n' (channels g s u) (tr @ [?st])))
                     = length (tr @ [?st]) + b)"
            by (rule Suc.IH)
          with Some ns Inr tgt Goto show ?thesis by (simp add: Let_def)
        qed
      qed
    qed
  qed
qed

lemma engineState_terminal: "engineState awaiting r \<noteq> running"
  by (cases r) (simp_all add: engineState_def)

text \<open>The looping agent of exercise 1 uses up every budget.\<close>

lemma buggy_analyze_step:
  "length (userMessageB s) < 20 \<Longrightarrow>
   runFrom buggyWorkflow (Suc fuel) ''analyze_request'' s tr =
     runFrom buggyWorkflow fuel ''request_clarification''
       (s\<lparr>needsMoreInfoB := True, attemptsB := attemptsB s + 1\<rparr>)
       (tr @ [\<lparr>stepNode = ''analyze_request'', stepBefore = s, stepEffects = [],
                stepAfter = s\<lparr>needsMoreInfoB := True, attemptsB := attemptsB s + 1\<rparr>\<rparr>])"
  by (cases s) (simp add: buggyWorkflow_def nextTarget_def targetOf_def pureNode_def channelsB_def analyzeRequestB_def
      routeAnalysisB_def noUpdateB_def channel_def channelNullable_def Let_def)

lemma buggy_clarify_step:
  "runFrom buggyWorkflow (Suc fuel) ''request_clarification'' s tr =
     runFrom buggyWorkflow fuel ''analyze_request''
       (s\<lparr>responseB := Some ''Could you provide more details?''\<rparr>)
       (tr @ [\<lparr>stepNode = ''request_clarification'', stepBefore = s, stepEffects = [],
                stepAfter = s\<lparr>responseB := Some ''Could you provide more details?''\<rparr>\<rparr>])"
  by (cases s) (simp add: buggyWorkflow_def nextTarget_def targetOf_def pureNode_def channelsB_def
      requestClarificationB_def noUpdateB_def channel_def channelNullable_def Let_def)

lemma buggy_loops:
  "length (userMessageB s) < 20 \<Longrightarrow>
   (isBudgetExceeded (fst (runFrom buggyWorkflow fuel ''analyze_request'' s tr)) \<and>
    length (snd (runFrom buggyWorkflow fuel ''analyze_request'' s tr)) = length tr + fuel) \<and>
   (isBudgetExceeded (fst (runFrom buggyWorkflow fuel ''request_clarification'' s tr)) \<and>
    length (snd (runFrom buggyWorkflow fuel ''request_clarification'' s tr)) = length tr + fuel)"
proof (induction fuel arbitrary: s tr)
  case 0
  show ?case by (simp add: isBudgetExceeded_def)
next
  case (Suc fuel)
  have a: "length (userMessageB (s\<lparr>needsMoreInfoB := True, attemptsB := attemptsB s + 1\<rparr>)) < 20"
    using Suc.prems by simp
  have b: "length (userMessageB (s\<lparr>responseB := Some ''Could you provide more details?''\<rparr>)) < 20"
    using Suc.prems by simp
  show ?case
    using Suc.IH [OF a] Suc.IH [OF b] Suc.prems
    by (simp only: buggy_analyze_step buggy_clarify_step) simp
qed

lemma buggy_agent_exceeds:
  "isBudgetExceeded (fst (runBuggyAgent budget)) \<and> length (snd (runBuggyAgent budget)) = budget"
  using buggy_loops [of initialStateB budget "[]"]
  by (simp add: runBuggyAgent_def invoke_def buggyWorkflow_def initialStateB_def)

lemma pingPong_five:
  "isBudgetExceeded (fst (invoke (pingPong ch fX fY) 5 s)) \<and>
   map stepNode (snd (invoke (pingPong ch fX fY) 5 s)) = [''X'', ''Y'', ''X'', ''Y'', ''X'']"
  by (simp add: invoke_def pingPong_def eval_nat_numeral nextTarget_def targetOf_def pureNode_def
      Let_def isBudgetExceeded_def)

text \<open>
  C1. Every run of the engine, for every graph, initial state and step budget, ends
  \<open>completed\<close>, \<open>failed\<close> or \<open>awaiting_approval\<close> after at most as many node executions as
  the budget allows, and a run that ends on the budget has made exactly that many. With two
  routers that always return each other's node and a budget of 5, the run ends \<open>failed\<close> with
  the step-budget error after exactly 5 node executions.
\<close>

theorem step_budget_enforced:
  "engineState awaiting (fst (invoke g budget s)) \<noteq> running \<and>
   length (snd (invoke g budget s)) \<le> budget \<and>
   (isBudgetExceeded (fst (invoke g budget s)) \<longrightarrow> length (snd (invoke g budget s)) = budget) \<and>
   isBudgetExceeded (fst (invoke (pingPong ch fX fY) 5 s')) \<and>
   engineState awaiting' (fst (invoke (pingPong ch fX fY) 5 s')) = failed \<and>
   map stepNode (snd (invoke (pingPong ch fX fY) 5 s')) = [''X'', ''Y'', ''X'', ''Y'', ''X'']"
proof -
  have b: "length (snd (invoke g budget s)) \<le> budget \<and>
     (isBudgetExceeded (fst (invoke g budget s)) \<longrightarrow> length (snd (invoke g budget s)) = budget)"
    using runFrom_budget [of g budget "entryPoint g" s "[]"] by (simp add: invoke_def)
  have p: "isBudgetExceeded (fst (invoke (pingPong ch fX fY) 5 s')) \<and>
     map stepNode (snd (invoke (pingPong ch fX fY) 5 s')) = [''X'', ''Y'', ''X'', ''Y'', ''X'']"
    by (rule pingPong_five)
  then have f: "engineState awaiting' (fst (invoke (pingPong ch fX fY) 5 s')) = failed"
    by (cases "fst (invoke (pingPong ch fX fY) 5 s')")
       (simp_all add: isBudgetExceeded_def engineState_def)
  from b p f engineState_terminal [of awaiting "fst (invoke g budget s)"] show ?thesis by blast
qed

theorem step_budget_enforced_witness:
  "isBudgetExceeded (fst (invoke buggyWorkflow 5 initialStateB)) \<and>
   length (snd (invoke buggyWorkflow 5 initialStateB)) = 5 \<and>
   engineState (\<lambda>s. False) (fst (invoke buggyWorkflow 5 initialStateB)) = failed \<and>
   map stepNode (snd (invoke buggyWorkflow 5 initialStateB))
     = [''analyze_request'', ''request_clarification'', ''analyze_request'',
        ''request_clarification'', ''analyze_request'']"
proof -
  have h: "isBudgetExceeded (fst (invoke buggyWorkflow 5 initialStateB)) \<and>
   engineState (\<lambda>s. False) (fst (invoke buggyWorkflow 5 initialStateB)) = failed \<and>
   map stepNode (snd (invoke buggyWorkflow 5 initialStateB))
     = [''analyze_request'', ''request_clarification'', ''analyze_request'',
        ''request_clarification'', ''analyze_request'']"
    by (simp add: invoke_def buggyWorkflow_def initialStateB_def eval_nat_numeral nextTarget_def
        targetOf_def pureNode_def channelsB_def analyzeRequestB_def requestClarificationB_def
        routeAnalysisB_def noUpdateB_def channel_def channelNullable_def Let_def
        isBudgetExceeded_def engineState_def)
  show ?thesis
    using step_budget_enforced [of "\<lambda>s. False" buggyWorkflow 5 initialStateB channelsB
        analyzeRequestB requestClarificationB initialStateB "\<lambda>s. False"] h
    by simp
qed

lemma fixed_step_analyze:
  "runFrom fixedWorkflow (Suc k) ''analyze_request'' s tr =
     (let s' = channels1 s (analyzeRequest s);
          tr' = tr @ [\<lparr>stepNode = ''analyze_request'', stepBefore = s, stepEffects = [],
                        stepAfter = s'\<rparr>]
      in if routeAnalysis s' = ''request_clarification''
         then runFrom fixedWorkflow k ''request_clarification'' s' tr'
         else (Completed s', tr'))"
  by (simp add: fixedWorkflow_def nextTarget_def targetOf_def pureNode_def Let_def routeAnalysis_def)

lemma fixed_step_clarify:
  "runFrom fixedWorkflow (Suc k) ''request_clarification'' s tr =
     runFrom fixedWorkflow k ''analyze_request'' (channels1 s (requestClarification s))
       (tr @ [\<lparr>stepNode = ''request_clarification'', stepBefore = s, stepEffects = [],
                stepAfter = channels1 s (requestClarification s)\<rparr>])"
  by (simp add: fixedWorkflow_def nextTarget_def targetOf_def pureNode_def Let_def)

lemma clarify_sets_asked:
  "askedForClarification1 (channels1 s (requestClarification s))"
  by (simp add: channels1_def requestClarification_def noUpdate1_def channel_def)

lemma analyze_after_asking:
  "askedForClarification1 s \<Longrightarrow> truthy (response1 (channels1 s (analyzeRequest s)))"
  by (simp add: channels1_def analyzeRequest_def noUpdate1_def channelNullable_def truthy_def)

lemma route_with_response:
  "truthy (response1 s) \<Longrightarrow> routeAnalysis s = ''end''"
  by (simp add: routeAnalysis_def)

text \<open>From every initial state a run of the fixed agent of exercise 1 reaches \<open>END\<close>
  after at most three node executions, by the guards of \<open>analyzeRequest\<close> and
  \<open>routeAnalysis\<close>: no budget of three or more is ever exceeded.\<close>

lemma fixedWorkflow_terminates:
  "\<exists>final tr. length tr \<le> 3 \<and> (\<forall>k. invoke fixedWorkflow (3 + k) s = (Completed final, tr))"
proof -
  define s1 where "s1 = channels1 s (analyzeRequest s)"
  define s2 where "s2 = channels1 s1 (requestClarification s1)"
  define s3 where "s3 = channels1 s2 (analyzeRequest s2)"
  have e: "invoke fixedWorkflow (3 + k) s
             = runFrom fixedWorkflow (Suc (Suc (Suc k))) ''analyze_request'' s []" for k
    by (simp add: invoke_def fixedWorkflow_def numeral_3_eq_3)
  show ?thesis
  proof (cases "routeAnalysis s1 = ''request_clarification''")
    case False
    then have "invoke fixedWorkflow (3 + k) s =
        (Completed s1, [\<lparr>stepNode = ''analyze_request'', stepBefore = s, stepEffects = [],
                         stepAfter = s1\<rparr>])" for k
      unfolding e by (simp add: fixed_step_analyze s1_def Let_def del: runFrom.simps)
    then show ?thesis by (intro exI [where x = s1] exI conjI allI) (auto simp del: One_nat_def)
  next
    case True
    have "askedForClarification1 s2" unfolding s2_def by (rule clarify_sets_asked)
    then have "truthy (response1 s3)" unfolding s3_def by (rule analyze_after_asking)
    then have r3: "routeAnalysis s3 = ''end''" by (rule route_with_response)
    have "invoke fixedWorkflow (3 + k) s =
        (Completed s3,
         [\<lparr>stepNode = ''analyze_request'', stepBefore = s, stepEffects = [], stepAfter = s1\<rparr>,
          \<lparr>stepNode = ''request_clarification'', stepBefore = s1, stepEffects = [], stepAfter = s2\<rparr>,
          \<lparr>stepNode = ''analyze_request'', stepBefore = s2, stepEffects = [], stepAfter = s3\<rparr>])" for k
      unfolding e using True r3
      by (simp add: fixed_step_analyze fixed_step_clarify Let_def
          s1_def [symmetric] s2_def [symmetric] s3_def [symmetric] del: runFrom.simps)
    then show ?thesis by (intro exI [where x = s3] exI conjI allI) (auto simp del: One_nat_def)
  qed
qed

section \<open>The deployed agent: the approval gate\<close>

lemma nodes4:
  "map_of (nodes (workflow4 w)) ''understand_request'' = Some (understandRequest4 w)"
  "map_of (nodes (workflow4 w)) ''handle_lookup'' = Some (handleLookup4 w)"
  "map_of (nodes (workflow4 w)) ''handle_update'' = Some (handleUpdate4 w)"
  "map_of (nodes (workflow4 w)) ''handle_followup'' = Some (handleFollowup4 w)"
  "map_of (nodes (workflow4 w)) ''handle_other'' = Some (handleOther4 w)"
  "map_of (nodes (workflow4 w)) ''human_review'' = Some (humanReview4 w)"
  "map_of (nodes (workflow4 w)) ''execute_approved'' = Some (executeApproved w)"
  "map_of (nodes (workflow4 w)) ''handle_rejection'' = Some (handleRejection4 w)"
  by (simp_all add: workflow4_def)

lemma entry4: "entryPoint (workflow4 w) = ''understand_request''"
  by (simp add: workflow4_def)

lemma channels_workflow4: "channels (workflow4 w) = channels4"
  by (simp add: workflow4_def)

lemma next4_terminal:
  "nextTarget (workflow4 w) ''handle_lookup'' s = Some END"
  "nextTarget (workflow4 w) ''handle_other'' s = Some END"
  "nextTarget (workflow4 w) ''execute_approved'' s = Some END"
  "nextTarget (workflow4 w) ''handle_rejection'' s = Some END"
  by (simp_all add: workflow4_def nextTarget_def targetOf_def)

lemma next4_review:
  "nextTarget (workflow4 w) ''human_review'' s =
     (if approvalStatus4 s = Some approved then Some (Goto ''execute_approved'')
      else if approvalStatus4 s = Some rejected then Some (Goto ''handle_rejection'')
      else Some END)"
  by (simp add: workflow4_def nextTarget_def targetOf_def routeAfterReview_def)

lemma next4_action:
  "nextTarget (workflow4 w) ''handle_update'' s =
     (if approvalStatus4 s = Some pending then Some (Goto ''human_review'') else Some END)"
  "nextTarget (workflow4 w) ''handle_followup'' s =
     (if approvalStatus4 s = Some pending then Some (Goto ''human_review'') else Some END)"
  by (simp_all add: workflow4_def nextTarget_def targetOf_def routeAfterAction_def)

lemma next4_understand:
  "nextTarget (workflow4 w) ''understand_request'' s =
     (if routeByIntent4 s = ''end'' then Some END else Some (Goto (routeByIntent4 s)))"
  by (simp add: workflow4_def nextTarget_def targetOf_def routeByIntent4_def split: option.splits)

lemma routeByIntent4_range:
  "routeByIntent4 s \<in> {''end'', ''handle_lookup'', ''handle_update'', ''handle_followup'', ''handle_other''}"
  by (simp add: routeByIntent4_def split: option.splits)

text \<open>What the nodes do to the outside world and to the approval fields.\<close>

lemma lookup_no_write: "\<not> list_ex isWrite (fst (handleLookup4 w s))"
  by (simp add: handleLookup4_def Let_def isWrite_def)

lemma other_no_write: "\<not> list_ex isWrite (fst (handleOther4 w s))"
  by (simp add: handleOther4_def)

lemma rejection_no_write: "\<not> list_ex isWrite (fst (handleRejection4 w s))"
  by (simp add: handleRejection4_def)

lemma understand_no_write: "\<not> list_ex isWrite (fst (understandRequest4 w s))"
  by (auto simp add: understandRequest4_def Let_def isWrite_def list_ex_iff
      split: sum.splits thrown.splits)

lemma understand_update:
  "snd (understandRequest4 w s) = Inr u \<Longrightarrow>
   upd_pendingAction4 u = Absent \<and> upd_approvalStatus4 u = Absent"
  by (auto simp add: understandRequest4_def Let_def noUpdate4_def split: sum.splits thrown.splits)

lemma review_result:
  "\<exists>u. humanReview4 w s = ([], Inr u) \<and> upd_pendingAction4 u = Absent \<and>
       (upd_approvalStatus4 u = Absent \<or> upd_approvalStatus4 u = Present (Some approved) \<or>
        upd_approvalStatus4 u = Present (Some rejected))"
  by (simp add: humanReview4_def noUpdate4_def)

lemma followup_no_write: "\<not> list_ex isWrite (fst (handleFollowup4 w s))"
  by (simp add: handleFollowup4_def Let_def isWrite_def
      split: option.splits DbOutcome.splits list.splits)

lemma followup_update:
  "snd (handleFollowup4 w s) = Inr u \<Longrightarrow>
   (upd_approvalStatus4 u = Absent \<and> upd_pendingAction4 u = Absent) \<or>
   (upd_approvalStatus4 u = Present (Some pending) \<and> (\<exists>p. upd_pendingAction4 u = Present (Some p)))"
  by (auto simp add: handleFollowup4_def Let_def noUpdate4_def
      split: option.splits DbOutcome.splits list.splits)

lemma followup_returns: "\<exists>u. snd (handleFollowup4 w s) = Inr u"
  by (simp add: handleFollowup4_def Let_def
      split: option.splits DbOutcome.splits list.splits)

lemma update_no_send: "\<not> list_ex isSend (fst (handleUpdate4 w s))"
  by (simp add: handleUpdate4_def Let_def isSend_def
      split: option.splits DbOutcome.splits list.splits)

lemma update_returns: "\<exists>u. snd (handleUpdate4 w s) = Inr u"
  by (simp add: handleUpdate4_def Let_def
      split: option.splits DbOutcome.splits list.splits)

lemma update_update:
  "snd (handleUpdate4 w s) = Inr u \<Longrightarrow>
   (upd_approvalStatus4 u = Absent \<and> upd_pendingAction4 u = Absent) \<or>
   (upd_approvalStatus4 u = Present (Some pending) \<and> (\<exists>p. upd_pendingAction4 u = Present (Some p)) \<and>
    \<not> list_ex isWrite (fst (handleUpdate4 w s)))"
  by (auto simp add: handleUpdate4_def Let_def noUpdate4_def isWrite_def
      split: option.splits DbOutcome.splits list.splits if_splits)


lemma trace4_Suc:
  "snd (runFrom (workflow4 w) (Suc k) n s []) =
     (case map_of (nodes (workflow4 w)) n of
        None \<Rightarrow> []
      | Some node \<Rightarrow>
          (case node s of
             (fx, Inl msg) \<Rightarrow> [\<lparr>stepNode = n, stepBefore = s, stepEffects = fx, stepAfter = s\<rparr>]
           | (fx, Inr u) \<Rightarrow>
               \<lparr>stepNode = n, stepBefore = s, stepEffects = fx, stepAfter = channels4 s u\<rparr> #
               (case nextTarget (workflow4 w) n (channels4 s u) of
                  Some (Goto n') \<Rightarrow> snd (runFrom (workflow4 w) k n' (channels4 s u) [])
                | _ \<Rightarrow> [])))"
  unfolding runFrom_trace_Suc channels_workflow4 ..

text \<open>The rest of a run from each node respects the gate.\<close>

lemma gate_single_step:
  assumes "map_of (nodes (workflow4 w)) n = Some node"
    and "\<And>s'. nextTarget (workflow4 w) n s' = Some END"
    and "stepAllowed prev \<lparr>stepNode = n, stepBefore = s, stepEffects = fst (node s), stepAfter = s\<rparr>"
    and "\<And>u. stepAllowed prev
            \<lparr>stepNode = n, stepBefore = s, stepEffects = fst (node s), stepAfter = channels4 s u\<rparr>"
  shows "gateRespected prev (snd (runFrom (workflow4 w) fuel n s []))"
proof (cases fuel)
  case 0
  then show ?thesis by simp
next
  case (Suc k)
  obtain fx r where ns: "node s = (fx, r)" by (cases "node s")
  show ?thesis
  proof (cases r)
    case (Inl msg)
    with assms(1,3) ns Suc show ?thesis
      by (simp add: trace4_Suc del: runFrom.simps)
  next
    case (Inr u)
    with assms(1,2) assms(4) [of u] ns Suc show ?thesis
      by (simp add: trace4_Suc del: runFrom.simps)
  qed
qed

lemma gate_lookup: "gateRespected prev (snd (runFrom (workflow4 w) fuel ''handle_lookup'' s []))"
  by (rule gate_single_step [OF nodes4(2) next4_terminal(1)])
     (simp_all add: stepAllowed_def lookup_no_write)

lemma gate_other: "gateRespected prev (snd (runFrom (workflow4 w) fuel ''handle_other'' s []))"
  by (rule gate_single_step [OF nodes4(5) next4_terminal(2)])
     (simp_all add: stepAllowed_def other_no_write)

lemma gate_rejection:
  "gateRespected prev (snd (runFrom (workflow4 w) fuel ''handle_rejection'' s []))"
  by (rule gate_single_step [OF nodes4(8) next4_terminal(4)])
     (simp_all add: stepAllowed_def rejection_no_write)

lemma gate_execute:
  assumes "recordsApproval p" and "s = stepAfter p"
  shows "gateRespected (Some p) (snd (runFrom (workflow4 w) fuel ''execute_approved'' s []))"
  by (rule gate_single_step [OF nodes4(7) next4_terminal(3)])
     (simp_all add: stepAllowed_def assms)

lemma gate_review:
  assumes "approvalStatus4 s = Some pending" and "pendingAction4 s \<noteq> None"
  shows "gateRespected prev (snd (runFrom (workflow4 w) fuel ''human_review'' s []))"
proof (cases fuel)
  case 0
  then show ?thesis by simp
next
  case (Suc k)
  obtain u where u: "humanReview4 w s = ([], Inr u)" "upd_pendingAction4 u = Absent"
    "upd_approvalStatus4 u = Absent \<or> upd_approvalStatus4 u = Present (Some approved) \<or>
     upd_approvalStatus4 u = Present (Some rejected)"
    using review_result [of w s] by blast
  let ?s' = "channels4 s u"
  let ?st = "\<lparr>stepNode = ''human_review'', stepBefore = s, stepEffects = [], stepAfter = ?s'\<rparr>"
  have pa: "pendingAction4 ?s' = pendingAction4 s"
    using u(2) by (simp add: channels4_def channelNullable_def)
  have allowed: "stepAllowed prev ?st" by (simp add: stepAllowed_def)
  have tr: "snd (runFrom (workflow4 w) (Suc k) ''human_review'' s []) =
        ?st # (case nextTarget (workflow4 w) ''human_review'' ?s' of
                 Some (Goto n') \<Rightarrow> snd (runFrom (workflow4 w) k n' ?s' [])
               | _ \<Rightarrow> [])"
    using u(1) by (simp add: trace4_Suc nodes4 del: runFrom.simps)
  from u(3) show ?thesis
  proof (elim disjE)
    assume "upd_approvalStatus4 u = Absent"
    then have "approvalStatus4 ?s' = Some pending"
      using assms(1) by (simp add: channels4_def channelNullable_def)
    with tr allowed Suc show ?thesis by (simp add: next4_review del: runFrom.simps)
  next
    assume "upd_approvalStatus4 u = Present (Some approved)"
    then have a: "approvalStatus4 ?s' = Some approved"
      by (simp add: channels4_def channelNullable_def)
    have "recordsApproval ?st"
      using a pa assms by (simp add: recordsApproval_def)
    then have "gateRespected (Some ?st) (snd (runFrom (workflow4 w) k ''execute_approved'' ?s' []))"
      by (rule gate_execute) simp
    with tr allowed Suc a show ?thesis by (simp add: next4_review del: runFrom.simps)
  next
    assume "upd_approvalStatus4 u = Present (Some rejected)"
    then have a: "approvalStatus4 ?s' = Some rejected"
      by (simp add: channels4_def channelNullable_def)
    have "gateRespected (Some ?st) (snd (runFrom (workflow4 w) k ''handle_rejection'' ?s' []))"
      by (rule gate_rejection)
    with tr allowed Suc a show ?thesis by (simp add: next4_review del: runFrom.simps)
  qed
qed

lemma gate_followup:
  assumes "approvalStatus4 s = None" and "pendingAction4 s = None"
  shows "gateRespected prev (snd (runFrom (workflow4 w) fuel ''handle_followup'' s []))"
proof (cases fuel)
  case 0
  then show ?thesis by simp
next
  case (Suc k)
  obtain fx r where ns: "handleFollowup4 w s = (fx, r)" by (cases "handleFollowup4 w s")
  obtain u where r: "r = Inr u" using followup_returns [of w s] ns by auto
  let ?s' = "channels4 s u"
  let ?st = "\<lparr>stepNode = ''handle_followup'', stepBefore = s, stepEffects = fx, stepAfter = ?s'\<rparr>"
  have nw: "\<not> list_ex isWrite fx" using followup_no_write [of w s] ns by simp
  have allowed: "stepAllowed prev ?st" using nw by (simp add: stepAllowed_def)
  have tr: "snd (runFrom (workflow4 w) (Suc k) ''handle_followup'' s []) =
        ?st # (case nextTarget (workflow4 w) ''handle_followup'' ?s' of
                 Some (Goto n') \<Rightarrow> snd (runFrom (workflow4 w) k n' ?s' [])
               | _ \<Rightarrow> [])"
    using ns r by (simp add: trace4_Suc nodes4 del: runFrom.simps)
  from followup_update [of w s u] ns r
  consider (idle) "upd_approvalStatus4 u = Absent" "upd_pendingAction4 u = Absent"
    | (proposed) p where "upd_approvalStatus4 u = Present (Some pending)"
        "upd_pendingAction4 u = Present (Some p)"
    by auto
  then show ?thesis
  proof cases
    case idle
    then have "approvalStatus4 ?s' = None"
      using assms by (simp add: channels4_def channelNullable_def)
    with tr allowed Suc show ?thesis by (simp add: next4_action del: runFrom.simps)
  next
    case proposed
    then have a: "approvalStatus4 ?s' = Some pending" and b: "pendingAction4 ?s' \<noteq> None"
      by (simp_all add: channels4_def channelNullable_def)
    have "gateRespected (Some ?st) (snd (runFrom (workflow4 w) k ''human_review'' ?s' []))"
      using a b by (rule gate_review)
    with tr allowed Suc a show ?thesis by (simp add: next4_action del: runFrom.simps)
  qed
qed

lemma gate_update:
  assumes "approvalStatus4 s = None" and "pendingAction4 s = None"
  shows "gateRespected prev (snd (runFrom (workflow4 w) fuel ''handle_update'' s []))"
proof (cases fuel)
  case 0
  then show ?thesis by simp
next
  case (Suc k)
  obtain fx r where ns: "handleUpdate4 w s = (fx, r)" by (cases "handleUpdate4 w s")
  obtain u where r: "r = Inr u" using update_returns [of w s] ns by auto
  let ?s' = "channels4 s u"
  let ?st = "\<lparr>stepNode = ''handle_update'', stepBefore = s, stepEffects = fx, stepAfter = ?s'\<rparr>"
  have ns': "\<not> list_ex isSend fx" using update_no_send [of w s] ns by simp
  have tr: "snd (runFrom (workflow4 w) (Suc k) ''handle_update'' s []) =
        ?st # (case nextTarget (workflow4 w) ''handle_update'' ?s' of
                 Some (Goto n') \<Rightarrow> snd (runFrom (workflow4 w) k n' ?s' [])
               | _ \<Rightarrow> [])"
    using ns r by (simp add: trace4_Suc nodes4 del: runFrom.simps)
  from update_update [of w s u] ns r
  consider (direct) "upd_approvalStatus4 u = Absent" "upd_pendingAction4 u = Absent"
    | (proposed) p where "upd_approvalStatus4 u = Present (Some pending)"
        "upd_pendingAction4 u = Present (Some p)" "\<not> list_ex isWrite fx"
    by auto
  then show ?thesis
  proof cases
    case direct
    then have a: "approvalStatus4 ?s' = None" and b: "pendingAction4 ?s' = None"
      using assms by (simp_all add: channels4_def channelNullable_def)
    have "stepAllowed prev ?st" using ns' assms b by (simp add: stepAllowed_def)
    with tr Suc a show ?thesis by (simp add: next4_action del: runFrom.simps)
  next
    case proposed
    then have a: "approvalStatus4 ?s' = Some pending" and b: "pendingAction4 ?s' \<noteq> None"
      by (simp_all add: channels4_def channelNullable_def)
    have allowed: "stepAllowed prev ?st" using ns' proposed(3) by (simp add: stepAllowed_def)
    have "gateRespected (Some ?st) (snd (runFrom (workflow4 w) k ''human_review'' ?s' []))"
      using a b by (rule gate_review)
    with tr allowed Suc a show ?thesis by (simp add: next4_action del: runFrom.simps)
  qed
qed

lemma gate_understand:
  assumes "approvalStatus4 s = None" and "pendingAction4 s = None"
  shows "gateRespected prev (snd (runFrom (workflow4 w) fuel ''understand_request'' s []))"
proof (cases fuel)
  case 0
  then show ?thesis by simp
next
  case (Suc k)
  obtain fx r where ns: "understandRequest4 w s = (fx, r)" by (cases "understandRequest4 w s")
  have nw: "\<not> list_ex isWrite fx" using understand_no_write [of w s] ns by simp
  show ?thesis
  proof (cases r)
    case (Inl msg)
    with ns nw Suc show ?thesis
      by (simp add: trace4_Suc nodes4 stepAllowed_def del: runFrom.simps)
  next
    case (Inr u)
    let ?s' = "channels4 s u"
    let ?st = "\<lparr>stepNode = ''understand_request'', stepBefore = s, stepEffects = fx,
                stepAfter = ?s'\<rparr>"
    have allowed: "stepAllowed prev ?st" using nw by (simp add: stepAllowed_def)
    from understand_update [of w s u] ns Inr
    have a: "approvalStatus4 ?s' = None" and b: "pendingAction4 ?s' = None"
      using assms by (simp_all add: channels4_def channelNullable_def)
    have tr: "snd (runFrom (workflow4 w) (Suc k) ''understand_request'' s []) =
        ?st # (if routeByIntent4 ?s' = ''end'' then []
               else snd (runFrom (workflow4 w) k (routeByIntent4 ?s') ?s' []))"
      using ns Inr
      by (simp add: trace4_Suc nodes4 next4_understand del: runFrom.simps)
    have "routeByIntent4 ?s' = ''end'' \<or>
          gateRespected (Some ?st) (snd (runFrom (workflow4 w) k (routeByIntent4 ?s') ?s' []))"
      using routeByIntent4_range [of ?s'] gate_lookup [of "Some ?st" w k ?s']
        gate_other [of "Some ?st" w k ?s'] gate_update [OF a b, of "Some ?st" w k]
        gate_followup [OF a b, of "Some ?st" w k]
      by auto
    with tr allowed Suc show ?thesis by (auto simp del: runFrom.simps)
  qed
qed

text \<open>
  C2. In every run of the deployed agent, from the initial state of \<open>runAgent\<close> in any
  world: the execute node runs only right after the review node recorded the decision
  \<open>approved\<close> for the pending action it executes; no other node sends a message; and the only
  other write is the direct update of a lead that needs no approval, made while no action is
  pending.
\<close>

theorem approval_gate:
  "gateRespected None (snd (invoke (workflow4 w) fuel (initialState4 msg)))"
proof -
  show ?thesis
    unfolding invoke_def entry4
    by (simp add: gate_understand initialState4_def del: runFrom.simps)
qed

lemma demoWorld_fields:
  "env demoWorld = \<lparr>AUTO_APPROVE = Some ''true'', RESEND_API_KEY = Some ''re_key'', EMAIL_FROM = None\<rparr>"
  "dateNow demoWorld = 1700000000000"
  "isoNow demoWorld = ''2023-11-14T22:13:20.000Z''"
  "anthropic demoWorld = (\<lambda>msg k. Inr ''{}'')"
  "parseIntent demoWorld = (\<lambda>txt. Inr \<lparr>intentType = ''followup'', target = Some ''TechCorp''\<rparr>)"
  "selectLeads demoWorld = (\<lambda>q. DbResult (Some [techCorp]) None)"
  "writeThrows demoWorld = (\<lambda>e. None)"
  "resend demoWorld = (\<lambda>k. FetchOk (Inr (Some ''msg_1'')))"
  by (simp_all add: demoWorld_def)

lemma noKeyWorld_fields:
  "env noKeyWorld = \<lparr>AUTO_APPROVE = Some ''true'', RESEND_API_KEY = None, EMAIL_FROM = None\<rparr>"
  "dateNow noKeyWorld = 1700000000000"
  "isoNow noKeyWorld = ''2023-11-14T22:13:20.000Z''"
  "anthropic noKeyWorld = (\<lambda>msg k. Inr ''{}'')"
  "parseIntent noKeyWorld = (\<lambda>txt. Inr \<lparr>intentType = ''followup'', target = Some ''TechCorp''\<rparr>)"
  "selectLeads noKeyWorld = (\<lambda>q. DbResult (Some [techCorp]) None)"
  "writeThrows noKeyWorld = (\<lambda>e. None)"
  by (simp_all add: noKeyWorld_def demoWorld_def)

lemma modelDownWorld_fields:
  "anthropic modelDownWorld = (\<lambda>msg k. Inl err500)"
  by (simp add: modelDownWorld_def demoWorld_def)

lemma invoke_four:
  "invoke g 4 s = runFrom g (Suc (Suc (Suc (Suc 0)))) (entryPoint g) s []"
  by (simp add: invoke_def eval_nat_numeral)

lemmas run4_eval = invoke_four entry4 nodes4 channels_workflow4 next4_terminal next4_review
  next4_action next4_understand
  understandRequest4_def withRetry4_def retryLoop4.simps handleFollowup4_def humanReview4_def
  executeApproved_def sendEmail4_def afterWrites_def intentTarget_def followupEmail4_def
  routeByIntent4_def initialState4_def noUpdate4_def channels4_def channel_def
  channelNullable_def truthy_def orElse_def fromAddress_def mockMessageId_def
  techCorp_def Let_def


lemma directWorld_fields:
  "env directWorld = \<lparr>AUTO_APPROVE = Some ''true'', RESEND_API_KEY = Some ''re_key'', EMAIL_FROM = None\<rparr>"
  "HIGH_VALUE_THRESHOLD directWorld = 80"
  "anthropic directWorld = (\<lambda>msg k. Inr ''{}'')"
  "parseIntent directWorld = (\<lambda>txt. Inr \<lparr>intentType = ''update'', target = Some ''LocalCafe''\<rparr>)"
  "selectLeads directWorld = (\<lambda>q. DbResult (Some [localCafe]) None)"
  "writeThrows directWorld = (\<lambda>e. None)"
  by (simp_all add: directWorld_def demoWorld_def)

theorem approval_gate_witness:
  "gateRespected None
     (snd (invoke (workflow4 demoWorld) 4 (initialState4 ''Send follow-up to TechCorp''))) \<and>
   map stepNode (snd (invoke (workflow4 demoWorld) 4 (initialState4 ''Send follow-up to TechCorp'')))
     = [''understand_request'', ''handle_followup'', ''human_review'', ''execute_approved''] \<and>
   map (list_ex isSend \<circ> stepEffects)
     (snd (invoke (workflow4 demoWorld) 4 (initialState4 ''Send follow-up to TechCorp'')))
     = [False, False, False, True] \<and>
   gateRespected None
     (snd (invoke (workflow4 directWorld) 4 (initialState4 ''Mark LocalCafe as lost''))) \<and>
   map stepNode (snd (invoke (workflow4 directWorld) 4 (initialState4 ''Mark LocalCafe as lost'')))
     = [''understand_request'', ''handle_update''] \<and>
   map (list_ex isWrite \<circ> stepEffects)
     (snd (invoke (workflow4 directWorld) 4 (initialState4 ''Mark LocalCafe as lost'')))
     = [False, True]"
proof -
  have a: "map stepNode (snd (invoke (workflow4 demoWorld) 4 (initialState4 ''Send follow-up to TechCorp'')))
     = [''understand_request'', ''handle_followup'', ''human_review'', ''execute_approved''] \<and>
   map (list_ex isSend \<circ> stepEffects)
     (snd (invoke (workflow4 demoWorld) 4 (initialState4 ''Send follow-up to TechCorp'')))
     = [False, False, False, True]"
    by (simp add: run4_eval demoWorld_fields isSend_def)
  have b: "map stepNode (snd (invoke (workflow4 directWorld) 4 (initialState4 ''Mark LocalCafe as lost'')))
     = [''understand_request'', ''handle_update''] \<and>
   map (list_ex isWrite \<circ> stepEffects)
     (snd (invoke (workflow4 directWorld) 4 (initialState4 ''Mark LocalCafe as lost'')))
     = [False, True]"
    by (simp add: run4_eval directWorld_fields isWrite_def handleUpdate4_def needsApproval_def
        statusChange4_def toLowerCase_def lowerChar_def localCafe_def)
  show ?thesis
    using approval_gate [of demoWorld 4 "''Send follow-up to TechCorp''"]
      approval_gate [of directWorld 4 "''Mark LocalCafe as lost''"] a b
    by simp
qed

section \<open>State merge, the HTTP handler, the routers and the mock mail\<close>

text \<open>What the channels do with a value, with a missing key and with null.\<close>

lemma channel_overwrites:
  "channel a (Present v) = v" "channel a Absent = a"
  "channelNullable b (Present (Some x)) = Some x" "channelNullable b Absent = b"
  "channelNullable b (Present None) = b"
  by (simp_all add: channel_def channelNullable_def)

lemma channels3_null_kept:
  "pendingAction3 (channels3 s (handleRejection3 s)) = pendingAction3 s \<and>
   approvalStatus3 (channels3 s (handleRejection3 s)) = approvalStatus3 s \<and>
   error3 (channels3 s (errorRecovery3 s)) = error3 s"
  by (simp add: channels3_def handleRejection3_def errorRecovery3_def noUpdate3_def
      channelNullable_def)

lemma channels2_null_kept:
  "pendingAction2 (channels2 s (u\<lparr>upd_pendingAction2 := Present None\<rparr>)) = pendingAction2 s"
  by (simp add: channels2_def channelNullable_def)

text \<open>
  C3. The channels overwrite a field with the update's value and keep a field the update does
  not mention, as long as the value is not null. A null in the update is dropped: the reducer
  \<open>b ?? a\<close> keeps the old value. The nodes rely on null to clear a field: after a rejection
  \<open>handleRejection\<close> returns \<open>pendingAction: null, approvalStatus: null\<close>, and both
  fields keep their values.
\<close>

theorem merge_null_dropped:
  "upd_pendingAction3 (handleRejection3 rejectedState3) = Present None \<and>
   pendingAction3 (channels3 rejectedState3 (handleRejection3 rejectedState3))
     = Some followupProposal \<and>
   upd_approvalStatus3 (handleRejection3 rejectedState3) = Present None \<and>
   approvalStatus3 (channels3 rejectedState3 (handleRejection3 rejectedState3)) = Some rejected"
  by (simp add: channels3_def handleRejection3_def noUpdate3_def channelNullable_def
      rejectedState3_def)

text \<open>
  C8, as stated, fails: the handler answers every approve or reject request with success and
  keeps no record of it, so a second decision on the same action is accepted like the first.
\<close>

theorem decide_twice_counterexample:
  "serveAll demoWorld 4 [decisionRequest ''approve'' ''lead-1'', decisionRequest ''approve'' ''lead-1'']
     = [Some \<lparr>httpStatus = 200, payload = Decision True ''Action lead-1 approveed.''\<rparr>,
        Some \<lparr>httpStatus = 200, payload = Decision True ''Action lead-1 approveed.''\<rparr>]"
  by (simp add: serveAll_def serve_def decisionRequest_def)

text \<open>
  C8, amended. Every approve or reject request, the first for an action or a repeated one, is
  answered with success and the message "Action <id> <action>ed."; no conflict is ever
  reported, whatever was decided before.
\<close>

theorem decide_always_accepted:
  "serveAll w fuel (replicate n (decisionRequest ''approve'' i))
     = replicate n (Some \<lparr>httpStatus = 200,
                           payload = Decision True (''Action '' @ i @ '' approveed.'')\<rparr>) \<and>
   serveAll w fuel (replicate n (decisionRequest ''reject'' i))
     = replicate n (Some \<lparr>httpStatus = 200,
                           payload = Decision True (''Action '' @ i @ '' rejected.'')\<rparr>)"
  by (simp add: serveAll_def serve_def decisionRequest_def)

text \<open>
  C9, as stated, fails: only the resilient agent of exercise 3 has a recovery node. The
  router \<open>routeByIntent\<close> of exercise 2 does not read the error field, and the one of the
  deployed agent ends the run on an error: when the model is down, the run stops after the first
  node with the error set.
\<close>

theorem router_recovery_counterexample:
  "truthy (error2 erroredState2) \<and> routeByIntent2 erroredState2 = ''handle_lookup'' \<and>
   map stepNode (snd (invoke (workflow4 modelDownWorld) 4 (initialState4 ''Show me leads'')))
     = [''understand_request''] \<and>
   (case fst (invoke (workflow4 modelDownWorld) 4 (initialState4 ''Show me leads'')) of
      Completed s \<Rightarrow> error4 s = Some ''upstream unavailable'' \<and> routeByIntent4 s = ''end''
    | _ \<Rightarrow> False)"
  by (simp add: run4_eval modelDownWorld_fields err500_def erroredState2_def routeByIntent2_def)

text \<open>
  C9, amended. Every router of the day-2 agents is total: its answer is always a key of its
  edge table. The routers \<open>routeByIntent\<close> and \<open>routeAfterFollowup\<close> of the resilient
  agent (exercise 3) send every state whose error field is a non-empty string to
  \<open>error_recovery\<close>, before any other condition.
\<close>

theorem routers_total_and_recover:
  "(truthy (error3 s3) \<longrightarrow>
      routeByIntent3 s3 = ''error_recovery'' \<and> routeAfterFollowup3 s3 = ''error_recovery'' \<and>
      targetOf edges3 ''understand_request'' s3 = Some (Goto ''error_recovery'') \<and>
      targetOf edges3 ''handle_followup'' s3 = Some (Goto ''error_recovery'')) \<and>
   targetOf edges3 ''understand_request'' s3 \<noteq> None \<and>
   targetOf edges3 ''handle_followup'' s3 \<noteq> None \<and>
   targetOf edges3 ''human_review'' s3 \<noteq> None \<and>
   targetOf edges2 ''understand_request'' s2 \<noteq> None \<and>
   targetOf edges2 ''handle_update'' s2 \<noteq> None \<and>
   targetOf edges2 ''human_review'' s2 \<noteq> None \<and>
   nextTarget (workflow4 w) ''understand_request'' s4 \<noteq> None \<and>
   nextTarget (workflow4 w) ''handle_update'' s4 \<noteq> None \<and>
   nextTarget (workflow4 w) ''handle_followup'' s4 \<noteq> None \<and>
   nextTarget (workflow4 w) ''human_review'' s4 \<noteq> None \<and>
   nextTarget fixedWorkflow ''analyze_request'' s1 \<noteq> None"
proof -
  have r3: "truthy (error3 s3) \<longrightarrow>
      routeByIntent3 s3 = ''error_recovery'' \<and> routeAfterFollowup3 s3 = ''error_recovery'' \<and>
      targetOf edges3 ''understand_request'' s3 = Some (Goto ''error_recovery'') \<and>
      targetOf edges3 ''handle_followup'' s3 = Some (Goto ''error_recovery'')"
    by (simp add: routeByIntent3_def routeAfterFollowup3_def targetOf_def edges3_def)
  have t3: "targetOf edges3 ''understand_request'' s3 \<noteq> None \<and>
   targetOf edges3 ''handle_followup'' s3 \<noteq> None \<and>
   targetOf edges3 ''human_review'' s3 \<noteq> None"
    by (simp add: routeByIntent3_def routeAfterFollowup3_def routeAfterReview3_def targetOf_def
        edges3_def split: option.splits)
  have t2: "targetOf edges2 ''understand_request'' s2 \<noteq> None \<and>
   targetOf edges2 ''handle_update'' s2 \<noteq> None \<and>
   targetOf edges2 ''human_review'' s2 \<noteq> None"
    by (simp add: routeByIntent2_def routeAfterUpdate2_def routeAfterReview2_def targetOf_def
        edges2_def split: option.splits)
  have t4: "nextTarget (workflow4 w) ''understand_request'' s4 \<noteq> None \<and>
   nextTarget (workflow4 w) ''handle_update'' s4 \<noteq> None \<and>
   nextTarget (workflow4 w) ''handle_followup'' s4 \<noteq> None \<and>
   nextTarget (workflow4 w) ''human_review'' s4 \<noteq> None"
    by (simp add: next4_understand next4_action next4_review)
  have t1: "nextTarget fixedWorkflow ''analyze_request'' s1 \<noteq> None"
    by (simp add: fixedWorkflow_def nextTarget_def targetOf_def routeAnalysis_def)
  from r3 t3 t2 t4 t1 show ?thesis by blast
qed

theorem routers_total_and_recover_witness:
  "truthy (error3 failedLookupState3) \<and>
   routeByIntent3 failedLookupState3 = ''error_recovery'' \<and>
   routeAfterFollowup3 failedLookupState3 = ''error_recovery'' \<and>
   targetOf edges3 ''understand_request'' failedLookupState3 = Some (Goto ''error_recovery'') \<and>
   targetOf edges3 ''handle_followup'' rejectedState3 = Some END"
proof -
  have h: "truthy (error3 failedLookupState3)"
    by (simp add: failedLookupState3_def truthy_def)
  have e: "targetOf edges3 ''handle_followup'' rejectedState3 = Some END"
    by (simp add: targetOf_def edges3_def routeAfterFollowup3_def rejectedState3_def truthy_def)
  show ?thesis
    using routers_total_and_recover [of failedLookupState3] h e by simp
qed

text \<open>
  C10. Without \<open>RESEND_API_KEY\<close>, \<open>sendEmail\<close> (of exercise 3 and of the deployed agent) makes
  no request and answers success with the message id \<open>mock-<Date.now()>\<close>. So a run can end
  with the response "Email sent!" and report success although no message left the system.
\<close>

theorem sendEmail_mock:
  "sendEmail3 (w\<lparr>env := (env w)\<lparr>RESEND_API_KEY := None\<rparr>\<rparr>) params
     = ([], Inr \<lparr>success = True, messageId = Some (''mock-'' @ showNat (dateNow w)),
                 emailError = None\<rparr>) \<and>
   sendEmail4 (w\<lparr>env := (env w)\<lparr>RESEND_API_KEY := None\<rparr>\<rparr>) t subj txt
     = ([], \<lparr>success = True, messageId = Some (''mock-'' @ showNat (dateNow w)),
             emailError = None\<rparr>) \<and>
   RESEND_API_KEY (env noKeyWorld) = None \<and>
   map_option agentSuccess (runAgent noKeyWorld 4 ''Send follow-up to TechCorp'') = Some True \<and>
   map_option agentMessage (runAgent noKeyWorld 4 ''Send follow-up to TechCorp'')
     = Some (checkMark @ '' Email sent!'') \<and>
   map (list_ex isSend \<circ> stepEffects)
     (snd (invoke (workflow4 noKeyWorld) 4 (initialState4 ''Send follow-up to TechCorp'')))
     = [False, False, False, False]"
proof -
  have a: "sendEmail3 (w\<lparr>env := (env w)\<lparr>RESEND_API_KEY := None\<rparr>\<rparr>) params
     = ([], Inr \<lparr>success = True, messageId = Some (''mock-'' @ showNat (dateNow w)),
                 emailError = None\<rparr>)"
    by (simp add: sendEmail3_def truthy_def mockMessageId_def Let_def)
  have b: "sendEmail4 (w\<lparr>env := (env w)\<lparr>RESEND_API_KEY := None\<rparr>\<rparr>) t subj txt
     = ([], \<lparr>success = True, messageId = Some (''mock-'' @ showNat (dateNow w)),
             emailError = None\<rparr>)"
    by (simp add: sendEmail4_def truthy_def mockMessageId_def Let_def)
  have c: "map (list_ex isSend \<circ> stepEffects)
     (snd (invoke (workflow4 noKeyWorld) 4 (initialState4 ''Send follow-up to TechCorp'')))
     = [False, False, False, False]"
    by (simp add: run4_eval noKeyWorld_fields isSend_def)
  have d: "map_option agentSuccess (runAgent noKeyWorld 4 ''Send follow-up to TechCorp'') = Some True \<and>
   map_option agentMessage (runAgent noKeyWorld 4 ''Send follow-up to TechCorp'')
     = Some (checkMark @ '' Email sent!'')"
    by (simp add: runAgent_def run4_eval noKeyWorld_fields checkMark_def)
  from a b c d show ?thesis by (simp add: noKeyWorld_fields)
qed

end
